theory Spec2Isabelle
  imports Main "HOL-Library.Word" "HOL-Library.Sublist" "HOL-Library.Multiset"
begin

unbundle bit_operations_syntax

section \<open>Go values shared by both plugins\<close>

text \<open>
  A Go \<^verbatim>\<open>error\<close> value. \<open>ErrorNew msg\<close> is a leaf error with its message;
  \<open>Errorf msg cause\<close> is what \<^verbatim>\<open>fmt.Errorf\<close> returns for a format with \<^verbatim>\<open>%w\<close>:
  the formatted message together with the wrapped cause.
\<close>

datatype go_error = ErrorNew string | Errorf string go_error

fun Error :: "go_error \<Rightarrow> string" where
  "Error (ErrorNew msg) = msg"
| "Error (Errorf msg cause) = msg"

fun Unwrap :: "go_error \<Rightarrow> go_error option" where
  "Unwrap (ErrorNew msg) = None"
| "Unwrap (Errorf msg cause) = Some cause"

text \<open>The verb \<^verbatim>\<open>%d\<close> on a slice index: decimal digits, most significant first.\<close>

definition digit_char :: "nat \<Rightarrow> char" where
  "digit_char d = ''0123456789'' ! d"

fun itoa :: "nat \<Rightarrow> string" where
  "itoa n = (if n < 10 then [digit_char n] else itoa (n div 10) @ [digit_char (n mod 10)])"

declare itoa.simps [simp del]

section \<open>The operating system and the network\<close>

text \<open>
  The file system is a map from paths to file contents. The outcome of every call that
  leaves the process (\<^verbatim>\<open>os.MkdirAll\<close>, \<^verbatim>\<open>http.Get\<close>, \<^verbatim>\<open>os.Create\<close>, \<^verbatim>\<open>io.Copy\<close>) is
  given by an environment, indexed by the number of downloads attempted so far, so that
  two downloads of one URL may see different replies.
\<close>

datatype http_reply =
    TransportError go_error
  | Response nat string string \<comment> \<open>\<^verbatim>\<open>StatusCode\<close>, \<^verbatim>\<open>Status\<close>, the body\<close>

record os_env =
  filepath_Dir :: "string \<Rightarrow> string"
  os_MkdirAll :: "nat \<Rightarrow> string \<Rightarrow> go_error option"
  http_Get :: "nat \<Rightarrow> string \<Rightarrow> http_reply"
  os_Create :: "nat \<Rightarrow> string \<Rightarrow> go_error option"
  io_Copy :: "nat \<Rightarrow> (nat \<times> go_error) option"
    \<comment> \<open>\<open>None\<close>: the whole body is written; \<open>Some (k, err)\<close>: the copy fails with \<open>err\<close>
        after \<open>k\<close> bytes\<close>

record os_state =
  files :: "string \<rightharpoonup> string"
  downloads :: nat

definition os_ReadFile :: "os_state \<Rightarrow> string \<Rightarrow> go_error + string" where
  "os_ReadFile s f =
     (case files s f of
        None \<Rightarrow> Inl (ErrorNew (''open '' @ f @ '': no such file or directory''))
      | Some b \<Rightarrow> Inr b)"

text \<open>\<^verbatim>\<open>_, err := os.Stat(path); os.IsNotExist(err)\<close>\<close>

definition os_IsNotExist :: "os_state \<Rightarrow> string \<Rightarrow> bool" where
  "os_IsNotExist s path = (files s path = None)"

text \<open>
  \<^verbatim>\<open>RemoteFile\<close> and \<^verbatim>\<open>downloadFile\<close> are declared twice, word for word the same, in
  domain\_set.go (lines 57-61, 198-221) and in ip\_set.go (lines 55-59, 202-225).
  \<^verbatim>\<open>os.Create\<close> truncates the file; a failing \<^verbatim>\<open>io.Copy\<close> leaves the bytes written so far.
\<close>

record RemoteFile =
  URL :: string
  Path :: string
  Interval :: int

definition downloadFile :: "os_env \<Rightarrow> string \<Rightarrow> string \<Rightarrow> os_state \<Rightarrow> os_state \<times> go_error option" where
  "downloadFile E url filepath s =
     (let n = downloads s; s1 = s\<lparr>downloads := Suc n\<rparr> in
      case http_Get E n url of
        TransportError err \<Rightarrow> (s1, Some (Errorf (''failed to download file: '' @ Error err) err))
      | Response code status body \<Rightarrow>
          if code \<noteq> 200 then (s1, Some (ErrorNew (''bad status: '' @ status)))
          else (case os_Create E n filepath of
                  Some err \<Rightarrow> (s1, Some (Errorf (''failed to create file: '' @ Error err) err))
                | None \<Rightarrow>
                    (case io_Copy E n of
                       Some (k, err) \<Rightarrow>
                         (s1\<lparr>files := (files s1)(filepath \<mapsto> take k body)\<rparr>,
                          Some (Errorf (''failed to write file: '' @ Error err) err))
                     | None \<Rightarrow> (s1\<lparr>files := (files s1)(filepath \<mapsto> body)\<rparr>, None))))"

section \<open>The standard library's net/netip, as far as ip\_set.go uses it\<close>

text \<open>
  An address is an IPv4 address or an IPv6 address with its zone. Parsing IPv6 text is
  left as a parameter \<open>parseIPv6\<close> of the functions below. An error of the library is
  represented by its message alone: the library's text also names the function and
  quotes the input (\<^verbatim>\<open>ParseAddr("in"): msg\<close>), which is left out here.
\<close>

datatype netip_Addr = Addr4 "32 word" | Addr6 "128 word" string

record netip_Prefix =
  Prefix_Addr :: netip_Addr
  Prefix_Bits :: int

fun BitLen :: "netip_Addr \<Rightarrow> int" where
  "BitLen (Addr4 w) = 32"
| "BitLen (Addr6 w z) = 128"

fun Is6 :: "netip_Addr \<Rightarrow> bool" where
  "Is6 (Addr4 w) = False"
| "Is6 (Addr6 w z) = True"

fun Zone :: "netip_Addr \<Rightarrow> string" where
  "Zone (Addr4 w) = []"
| "Zone (Addr6 w z) = z"

fun WithoutZone :: "netip_Addr \<Rightarrow> netip_Addr" where
  "WithoutZone (Addr4 w) = Addr4 w"
| "WithoutZone (Addr6 w z) = Addr6 w []"

definition PrefixFrom :: "netip_Addr \<Rightarrow> int \<Rightarrow> netip_Prefix" where
  "PrefixFrom a b = \<lparr>Prefix_Addr = WithoutZone a, Prefix_Bits = b\<rparr>"

definition is_digit :: "char \<Rightarrow> bool" where
  "is_digit c = (48 \<le> (of_char c :: nat) \<and> (of_char c :: nat) \<le> 57)"

definition digit_val :: "char \<Rightarrow> nat" where
  "digit_val c = of_char c - 48"

definition AddrFrom4 :: "nat list \<Rightarrow> netip_Addr" where
  "AddrFrom4 octs = Addr4 (of_nat (foldl (\<lambda>acc b. acc * 256 + b) 0 octs))"

text \<open>
  \<^verbatim>\<open>parseIPv4\<close>: the loop over the bytes of \<open>s\<close>. \<open>prev\<close> is the byte before the current
  one (\<open>None\<close> at index 0), \<open>octs\<close> the octets stored so far (\<^verbatim>\<open>pos\<close> is their number),
  \<open>val\<close> and \<open>digLen\<close> the value and the number of digits of the current octet.
\<close>

fun parseIPv4_loop :: "char option \<Rightarrow> nat list \<Rightarrow> nat \<Rightarrow> nat \<Rightarrow> string \<Rightarrow> go_error + netip_Addr" where
  "parseIPv4_loop prev octs val digLen [] =
     (if length octs < 3 then Inl (ErrorNew ''IPv4 address too short'')
      else Inr (AddrFrom4 (octs @ [val])))"
| "parseIPv4_loop prev octs val digLen (c # cs) =
     (if is_digit c then
        (if digLen = 1 \<and> val = 0 then Inl (ErrorNew ''IPv4 field has octet with leading zero'')
         else if val * 10 + digit_val c > 255 then Inl (ErrorNew ''IPv4 field has value >255'')
         else parseIPv4_loop (Some c) octs (val * 10 + digit_val c) (Suc digLen) cs)
      else if c = CHR ''.'' then
        (if prev = None \<or> cs = [] \<or> prev = Some (CHR ''.'')
         then Inl (ErrorNew ''IPv4 field must have at least one digit'')
         else if length octs = 3 then Inl (ErrorNew ''IPv4 address too long'')
         else parseIPv4_loop (Some c) (octs @ [val]) 0 0 cs)
      else Inl (ErrorNew ''unexpected character''))"

definition parseIPv4 :: "string \<Rightarrow> go_error + netip_Addr" where
  "parseIPv4 s = parseIPv4_loop None [] 0 0 s"

text \<open>\<^verbatim>\<open>ParseAddr\<close>: the first of the bytes \<^verbatim>\<open>.\<close>, \<^verbatim>\<open>:\<close> and \<^verbatim>\<open>%\<close> decides the parser.\<close>

fun ParseAddr_scan :: "(string \<Rightarrow> go_error + netip_Addr) \<Rightarrow> string \<Rightarrow> string \<Rightarrow> go_error + netip_Addr" where
  "ParseAddr_scan parseIPv6 s [] = Inl (ErrorNew ''unable to parse IP'')"
| "ParseAddr_scan parseIPv6 s (c # cs) =
     (if c = CHR ''.'' then parseIPv4 s
      else if c = CHR '':'' then parseIPv6 s
      else if c = CHR ''%'' then Inl (ErrorNew ''missing IPv6 address'')
      else ParseAddr_scan parseIPv6 s cs)"

definition ParseAddr :: "(string \<Rightarrow> go_error + netip_Addr) \<Rightarrow> string \<Rightarrow> go_error + netip_Addr" where
  "ParseAddr parseIPv6 s = ParseAddr_scan parseIPv6 s s"

text \<open>\<^verbatim>\<open>strconv.Atoi\<close>: an optional sign, then decimal digits, within 64 bits.\<close>

fun atoi_digits :: "nat \<Rightarrow> string \<Rightarrow> nat option" where
  "atoi_digits acc [] = Some acc"
| "atoi_digits acc (c # cs) = (if is_digit c then atoi_digits (acc * 10 + digit_val c) cs else None)"

definition strconv_Atoi :: "string \<Rightarrow> go_error + int" where
  "strconv_Atoi s =
     (let neg = (s \<noteq> [] \<and> hd s = CHR ''-'');
          ds = (if s \<noteq> [] \<and> (hd s = CHR ''-'' \<or> hd s = CHR ''+'') then tl s else s) in
      if ds = [] then Inl (ErrorNew ''invalid syntax'')
      else (case atoi_digits 0 ds of
              None \<Rightarrow> Inl (ErrorNew ''invalid syntax'')
            | Some n \<Rightarrow>
                if neg then (if n > 2 ^ 63 then Inl (ErrorNew ''value out of range'') else Inr (- int n))
                else (if n > 2 ^ 63 - 1 then Inl (ErrorNew ''value out of range'') else Inr (int n))))"

text \<open>The index of the last \<^verbatim>\<open>/\<close> of a string, if it has one.\<close>

fun LastIndexByte :: "string \<Rightarrow> char \<Rightarrow> nat option" where
  "LastIndexByte [] c = None"
| "LastIndexByte (x # xs) c =
     (case LastIndexByte xs c of
        Some i \<Rightarrow> Some (Suc i)
      | None \<Rightarrow> if x = c then Some 0 else None)"

definition ParsePrefix :: "(string \<Rightarrow> go_error + netip_Addr) \<Rightarrow> string \<Rightarrow> go_error + netip_Prefix" where
  "ParsePrefix parseIPv6 s =
     (case LastIndexByte s (CHR ''/'') of
        None \<Rightarrow> Inl (ErrorNew ''no '/' '')
      | Some i \<Rightarrow>
          (case ParseAddr parseIPv6 (take i s) of
             Inl err \<Rightarrow> Inl (ErrorNew (Error err))
           | Inr a \<Rightarrow>
               if Is6 a \<and> Zone a \<noteq> [] then Inl (ErrorNew ''IPv6 zones cannot be present in a prefix'')
               else
                 (let bitsStr = drop (Suc i) s in
                  if length bitsStr > 1 \<and> \<not> (49 \<le> (of_char (hd bitsStr) :: nat) \<and> (of_char (hd bitsStr) :: nat) \<le> 57)
                  then Inl (ErrorNew ''bad bits after slash'')
                  else
                    (case strconv_Atoi bitsStr of
                       Inl err \<Rightarrow> Inl (ErrorNew ''bad bits after slash'')
                     | Inr b \<Rightarrow>
                         if b < 0 \<or> b > BitLen a then Inl (ErrorNew ''prefix length out of range'')
                         else Inr (PrefixFrom a b)))))"

text \<open>\<^verbatim>\<open>Addr.Prefix(b)\<close> keeps the top \<open>b\<close> bits of the address.\<close>

fun Addr_Prefix :: "netip_Addr \<Rightarrow> int \<Rightarrow> go_error + netip_Prefix" where
  "Addr_Prefix (Addr4 w) b =
     (if b < 0 then Inl (ErrorNew ''negative Prefix bits'')
      else if b > 32 then Inl (ErrorNew ''prefix length too large for IPv4'')
      else Inr (PrefixFrom (Addr4 (w AND NOT (mask (32 - nat b)))) b))"
| "Addr_Prefix (Addr6 w z) b =
     (if b < 0 then Inl (ErrorNew ''negative Prefix bits'')
      else if b > 128 then Inl (ErrorNew ''prefix length too large for IPv6'')
      else Inr (PrefixFrom (Addr6 (w AND NOT (mask (128 - nat b))) z) b))"

text \<open>\<^verbatim>\<open>Prefix.Contains(ip)\<close>: same family, no zone, and the top \<^verbatim>\<open>Bits()\<close> bits agree.\<close>

fun Prefix_Contains :: "netip_Prefix \<Rightarrow> netip_Addr \<Rightarrow> bool" where
  "Prefix_Contains p (Addr4 w) =
     (case Prefix_Addr p of
        Addr4 pw \<Rightarrow> 0 \<le> Prefix_Bits p \<and> Prefix_Bits p \<le> 32
                    \<and> drop_bit (32 - nat (Prefix_Bits p)) (w XOR pw) = 0
      | Addr6 pw pz \<Rightarrow> False)"
| "Prefix_Contains p (Addr6 w z) =
     (case Prefix_Addr p of
        Addr4 pw \<Rightarrow> False
      | Addr6 pw pz \<Rightarrow> z = [] \<and> 0 \<le> Prefix_Bits p \<and> Prefix_Bits p \<le> 128
                       \<and> drop_bit (128 - nat (Prefix_Bits p)) (w XOR pw) = 0)"

section \<open>ip\_set.go: parsing and loading\<close>

text \<open>\<^verbatim>\<open>parseNetipPrefix\<close>, lines 104-113.\<close>

definition parseNetipPrefix :: "(string \<Rightarrow> go_error + netip_Addr) \<Rightarrow> string \<Rightarrow> go_error + netip_Prefix" where
  "parseNetipPrefix parseIPv6 s =
     (if CHR ''/'' \<in> set s then ParsePrefix parseIPv6 s
      else (case ParseAddr parseIPv6 s of
              Inl err \<Rightarrow> Inl err
            | Inr addr \<Rightarrow> Addr_Prefix addr (BitLen addr)))"

text \<open>
  The package \<^verbatim>\<open>pkg/matcher/netlist\<close> is not among the sources. Its operations on a list
  of type \<open>'l\<close> are the fields of a record that every function calling them takes as
  \<open>P\<close>. \<^verbatim>\<open>LoadFromReader\<close> changes the list in place and may fail part way, so it
  returns the list together with the error.
\<close>

record 'l netlist_pkg =
  netlist_NewList :: 'l
  netlist_Append :: "'l \<Rightarrow> netip_Prefix \<Rightarrow> 'l"
  netlist_Sort :: "'l \<Rightarrow> 'l"
  netlist_Len :: "'l \<Rightarrow> nat"
  netlist_Match :: "'l \<Rightarrow> netip_Addr \<Rightarrow> bool"
  netlist_LoadFromReader :: "'l \<Rightarrow> string \<Rightarrow> 'l \<times> go_error option"

text \<open>
  \<^verbatim>\<open>Args\<close>: the fields that domain\_set.go (lines 50-55) and ip\_set.go (lines 48-53)
  both declare, extended by \<^verbatim>\<open>IPs\<close> here and by \<^verbatim>\<open>Exps\<close> for the domain set.
\<close>

record Args =
  Sets :: "string list"
  Files :: "string list"
  RemoteFiles :: "RemoteFile list"

record ip_Args = Args +
  IPs :: "string list"

text \<open>\<^verbatim>\<open>LoadFromIPs\<close>, lines 125-134; \<open>i\<close> is the index of the head of the list.\<close>

fun LoadFromIPs_from ::
  "(string \<Rightarrow> go_error + netip_Addr) \<Rightarrow> 'l netlist_pkg \<Rightarrow> nat \<Rightarrow> string list \<Rightarrow> 'l \<Rightarrow> 'l \<times> go_error option" where
  "LoadFromIPs_from parseIPv6 P i [] l = (l, None)"
| "LoadFromIPs_from parseIPv6 P i (s # ips) l =
     (case parseNetipPrefix parseIPv6 s of
        Inl err \<Rightarrow> (l, Some (Errorf (''invalid ip #'' @ itoa i @ '' '' @ s @ '', '' @ Error err) err))
      | Inr p \<Rightarrow> LoadFromIPs_from parseIPv6 P (Suc i) ips (netlist_Append P l p))"

definition LoadFromIPs ::
  "(string \<Rightarrow> go_error + netip_Addr) \<Rightarrow> 'l netlist_pkg \<Rightarrow> string list \<Rightarrow> 'l \<Rightarrow> 'l \<times> go_error option" where
  "LoadFromIPs parseIPv6 P ips l = LoadFromIPs_from parseIPv6 P 0 ips l"

text \<open>\<^verbatim>\<open>LoadFromFile\<close>, lines 145-156.\<close>

definition LoadFromFile :: "'l netlist_pkg \<Rightarrow> os_state \<Rightarrow> string \<Rightarrow> 'l \<Rightarrow> 'l \<times> go_error option" where
  "LoadFromFile P s f l =
     (if length f > 0 then
        (case os_ReadFile s f of
           Inl err \<Rightarrow> (l, Some err)
         | Inr b \<Rightarrow> netlist_LoadFromReader P l b)
      else (l, None))"

text \<open>\<^verbatim>\<open>LoadFromFiles\<close>, lines 136-143.\<close>

fun LoadFromFiles_from ::
  "'l netlist_pkg \<Rightarrow> os_state \<Rightarrow> nat \<Rightarrow> string list \<Rightarrow> 'l \<Rightarrow> 'l \<times> go_error option" where
  "LoadFromFiles_from P s i [] l = (l, None)"
| "LoadFromFiles_from P s i (f # fs) l =
     (case LoadFromFile P s f l of
        (l', Some err) \<Rightarrow>
          (l', Some (Errorf (''failed to load file #'' @ itoa i @ '' '' @ f @ '', '' @ Error err) err))
      | (l', None) \<Rightarrow> LoadFromFiles_from P s (Suc i) fs l')"

definition LoadFromFiles :: "'l netlist_pkg \<Rightarrow> os_state \<Rightarrow> string list \<Rightarrow> 'l \<Rightarrow> 'l \<times> go_error option" where
  "LoadFromFiles P s fs l = LoadFromFiles_from P s 0 fs l"

text \<open>\<^verbatim>\<open>LoadFromIPsAndFiles\<close>, lines 115-123.\<close>

definition LoadFromIPsAndFiles ::
  "(string \<Rightarrow> go_error + netip_Addr) \<Rightarrow> 'l netlist_pkg \<Rightarrow> os_state \<Rightarrow> string list \<Rightarrow> string list \<Rightarrow> 'l
     \<Rightarrow> 'l \<times> go_error option" where
  "LoadFromIPsAndFiles parseIPv6 P s ips fs l =
     (case LoadFromIPs parseIPv6 P ips l of
        (l', Some err) \<Rightarrow> (l', Some err)
      | (l', None) \<Rightarrow> LoadFromFiles P s fs l')"

text \<open>
  \<^verbatim>\<open>LoadFromRemoteFile\<close>, lines 158-183. The result of the first \<^verbatim>\<open>LoadFromFile\<close>
  (line 174) is not looked at: only the list it leaves is kept.
\<close>

definition LoadFromRemoteFile ::
  "'l netlist_pkg \<Rightarrow> os_env \<Rightarrow> RemoteFile \<Rightarrow> os_state \<times> 'l \<Rightarrow> os_state \<times> 'l \<times> go_error option" where
  "LoadFromRemoteFile P E rf sl =
     (case sl of (s, l) \<Rightarrow>
      let dir = filepath_Dir E (Path rf) in
      case (if dir \<noteq> [] then os_MkdirAll E (downloads s) dir else None) of
        Some err \<Rightarrow> (s, l, Some (Errorf (''failed to create directory '' @ dir @ '': '' @ Error err) err))
      | None \<Rightarrow>
          (case (if os_IsNotExist s (Path rf) then downloadFile E (URL rf) (Path rf) s else (s, None)) of
             (s1, Some err) \<Rightarrow> (s1, l, Some err)
           | (s1, None) \<Rightarrow>
               (case LoadFromFile P s1 (Path rf) l of
                  (l1, ignored) \<Rightarrow>
                    (case downloadFile E (URL rf) (Path rf) s1 of
                       (s2, Some err) \<Rightarrow> (s2, l1, Some err)
                     | (s2, None) \<Rightarrow>
                         (case LoadFromFile P s2 (Path rf) l1 of (l2, e) \<Rightarrow> (s2, l2, e))))))"

section \<open>ip\_set.go: MatcherGroup\<close>

text \<open>
  \<^verbatim>\<open>type MatcherGroup []netlist.Matcher\<close>: a component is an interface value with one
  method \<^verbatim>\<open>Match(addr) bool\<close>, here the function it computes. \<open>MatcherGroup_Match\<close> is
  the loop of lines 229-236.
\<close>

type_synonym 'k Matcher = "'k \<Rightarrow> bool"

fun MatcherGroup_Match :: "'k Matcher list \<Rightarrow> 'k \<Rightarrow> bool" where
  "MatcherGroup_Match [] addr = False"
| "MatcherGroup_Match (m # mg) addr = (if m addr then True else MatcherGroup_Match mg addr)"

text \<open>
  The same loop, returning beside the result the components whose \<^verbatim>\<open>Match\<close> it
  called, in the order of the calls.
\<close>

fun MatcherGroup_Match_calls :: "'k Matcher list \<Rightarrow> 'k \<Rightarrow> bool \<times> 'k Matcher list" where
  "MatcherGroup_Match_calls [] addr = (False, [])"
| "MatcherGroup_Match_calls (m # mg) addr =
     (if m addr then (True, [m])
      else (case MatcherGroup_Match_calls mg addr of (r, called) \<Rightarrow> (r, m # called)))"

section \<open>The running process: shared matchers and refresh goroutines\<close>

text \<open>
  A matcher that several parties hold a pointer to lives in a heap, a list of cells; a
  pointer is the index of its cell. A goroutine started by
  \<^verbatim>\<open>go updateRemoteFile(rf, l)\<close> is the pair of its arguments: the remote file and the
  pointer. A component of a set's \<^verbatim>\<open>mg\<close> is either the pointer to the set's own matcher
  or the matcher another provider returned. Calls and ticks are taken one at a time:
  what a goroutine does in the middle of another call, or of a reader's \<^verbatim>\<open>Match\<close>, is
  outside this model.
\<close>

record 'm runtime =
  rt_os :: os_state
  rt_heap :: "'m list"
  rt_goroutines :: "(RemoteFile \<times> nat) list"

datatype 'k component = Pointer nat | Provided "'k Matcher"

section \<open>ip\_set.go: background refresh and construction\<close>

text \<open>
  One iteration of the loop of \<^verbatim>\<open>updateRemoteFile\<close>, lines 189-199, for the goroutine
  holding the pointer \<open>a\<close>. The assignment \<^verbatim>\<open>*l = *newList\<close> writes the cell \<open>a\<close>.
\<close>

definition ip_updateRemoteFile_tick :: "'l netlist_pkg \<Rightarrow> os_env \<Rightarrow> RemoteFile \<Rightarrow> nat \<Rightarrow> 'l runtime \<Rightarrow> 'l runtime" where
  "ip_updateRemoteFile_tick P E rf a rt =
     (let newList = netlist_NewList P in
      case downloadFile E (URL rf) (Path rf) (rt_os rt) of
        (s1, Some err) \<Rightarrow> rt\<lparr>rt_os := s1\<rparr>
      | (s1, None) \<Rightarrow>
          (case LoadFromFile P s1 (Path rf) newList of
             (newList', Some err) \<Rightarrow> rt\<lparr>rt_os := s1\<rparr>
           | (newList', None) \<Rightarrow>
               rt\<lparr>rt_os := s1, rt_heap := (rt_heap rt)[a := netlist_Sort P newList']\<rparr>))"

text \<open>
  The loop never ends by itself; \<open>ip_updateRemoteFile P E rf a n\<close> is its first \<open>n\<close>
  iterations. \<open>ip_run_ticks\<close> runs the ticks of several goroutines in a given order: each
  entry of the schedule is the index of the goroutine whose ticker fires next.
\<close>

fun ip_updateRemoteFile :: "'l netlist_pkg \<Rightarrow> os_env \<Rightarrow> RemoteFile \<Rightarrow> nat \<Rightarrow> nat \<Rightarrow> 'l runtime \<Rightarrow> 'l runtime" where
  "ip_updateRemoteFile P E rf a 0 rt = rt"
| "ip_updateRemoteFile P E rf a (Suc n) rt = ip_updateRemoteFile P E rf a n (ip_updateRemoteFile_tick P E rf a rt)"

fun ip_run_ticks :: "'l netlist_pkg \<Rightarrow> os_env \<Rightarrow> nat list \<Rightarrow> 'l runtime \<Rightarrow> 'l runtime" where
  "ip_run_ticks P E [] rt = rt"
| "ip_run_ticks P E (g # sched) rt =
     (if g < length (rt_goroutines rt)
      then (case rt_goroutines rt ! g of
              (rf, a) \<Rightarrow> ip_run_ticks P E sched (ip_updateRemoteFile_tick P E rf a rt))
      else ip_run_ticks P E sched rt)"

text \<open>
  The loop over \<^verbatim>\<open>args.RemoteFiles\<close> in \<^verbatim>\<open>NewIPSet\<close>, lines 80-88; \<open>started\<close> collects
  the goroutines started so far, all holding the pointer \<open>a\<close>. The interval is taken
  to be one whose \<^verbatim>\<open>time.Duration(rf.Interval) * time.Second\<close> does not overflow (at most
  9223372036 seconds); beyond that \<^verbatim>\<open>time.NewTicker\<close> panics, which is not modelled.
\<close>

fun NewIPSet_remotes ::
  "'l netlist_pkg \<Rightarrow> os_env \<Rightarrow> nat \<Rightarrow> RemoteFile list \<Rightarrow> os_state \<times> 'l \<times> (RemoteFile \<times> nat) list
     \<Rightarrow> os_state \<times> 'l \<times> (RemoteFile \<times> nat) list \<times> go_error option" where
  "NewIPSet_remotes P E a [] (s, l, started) = (s, l, started, None)"
| "NewIPSet_remotes P E a (rf # rfs) (s, l, started) =
     (case LoadFromRemoteFile P E rf (s, l) of
        (s', l', Some err) \<Rightarrow>
          (s', l', started,
           Some (Errorf (''failed to load remote file '' @ URL rf @ '': '' @ Error err) err))
      | (s', l', None) \<Rightarrow>
          NewIPSet_remotes P E a rfs
            (s', l', if Interval rf > 0 then started @ [(rf, a)] else started))"

text \<open>
  The loop over \<^verbatim>\<open>args.Sets\<close>, lines 94-100. \<open>GetPlugin tag\<close> is the matcher of the
  provider registered under \<open>tag\<close>, or \<open>None\<close> when the tag names no
  \<^verbatim>\<open>IPMatcherProvider\<close>.
\<close>

fun NewIPSet_sets ::
  "(string \<Rightarrow> netip_Addr Matcher option) \<Rightarrow> string list \<Rightarrow> netip_Addr component list
     \<Rightarrow> go_error + netip_Addr component list" where
  "NewIPSet_sets GetPlugin [] mg = Inr mg"
| "NewIPSet_sets GetPlugin (tag # tags) mg =
     (case GetPlugin tag of
        None \<Rightarrow> Inl (ErrorNew (tag @ '' is not an IPMatcherProvider''))
      | Some m \<Rightarrow> NewIPSet_sets GetPlugin tags (mg @ [Provided m]))"

text \<open>
  \<^verbatim>\<open>NewIPSet\<close>, lines 71-102. The list \<open>l\<close> is allocated in a new cell of the heap; the
  result is the set (its \<^verbatim>\<open>mg\<close>) or the error, with the process as the call leaves it.
\<close>

definition NewIPSet ::
  "(string \<Rightarrow> go_error + netip_Addr) \<Rightarrow> 'l netlist_pkg \<Rightarrow> os_env \<Rightarrow> (string \<Rightarrow> netip_Addr Matcher option)
     \<Rightarrow> ip_Args \<Rightarrow> 'l runtime \<Rightarrow> (go_error + netip_Addr component list) \<times> 'l runtime" where
  "NewIPSet parseIPv6 P E GetPlugin args rt =
     (let a = length (rt_heap rt) in
      case LoadFromIPsAndFiles parseIPv6 P (rt_os rt) (IPs args) (Files args) (netlist_NewList P) of
        (l, Some err) \<Rightarrow> (Inl err, rt\<lparr>rt_heap := rt_heap rt @ [l]\<rparr>)
      | (l, None) \<Rightarrow>
          (case NewIPSet_remotes P E a (RemoteFiles args) (rt_os rt, l, []) of
             (s, l', started, Some err) \<Rightarrow>
               (Inl err,
                \<lparr>rt_os = s, rt_heap = rt_heap rt @ [l'], rt_goroutines = rt_goroutines rt @ started\<rparr>)
           | (s, l', started, None) \<Rightarrow>
               (let l'' = netlist_Sort P l';
                    mg = (if netlist_Len P l'' > 0 then [Pointer a] else [])
                in (NewIPSet_sets GetPlugin (Sets args) mg,
                    \<lparr>rt_os = s, rt_heap = rt_heap rt @ [l''], rt_goroutines = rt_goroutines rt @ started\<rparr>))))"

text \<open>
  \<^verbatim>\<open>GetIPMatcher\<close>, lines 67-69: the group of the set's components. A component that
  is a pointer reads its cell when \<^verbatim>\<open>Match\<close> is called.
\<close>

fun component_Match :: "'l netlist_pkg \<Rightarrow> 'l list \<Rightarrow> netip_Addr component \<Rightarrow> netip_Addr Matcher" where
  "component_Match P h (Pointer a) = netlist_Match P (h ! a)"
| "component_Match P h (Provided m) = m"

definition GetIPMatcher :: "'l netlist_pkg \<Rightarrow> 'l runtime \<Rightarrow> netip_Addr component list \<Rightarrow> netip_Addr Matcher list" where
  "GetIPMatcher P rt mg = map (component_Match P (rt_heap rt)) mg"

section \<open>domain\_set.go\<close>

text \<open>
  The package \<^verbatim>\<open>pkg/matcher/domain\<close> is not among the sources either; its operations
  on a \<^verbatim>\<open>MixMatcher\<close> of type \<open>'m\<close> are again the fields of a record \<open>P\<close>. With the
  value type \<^verbatim>\<open>struct{}\<close>, \<^verbatim>\<open>Match\<close> returns only whether the name is in the set.
\<close>

record 'm domain_pkg =
  domain_NewDomainMixMatcher :: 'm
  domain_Add :: "'m \<Rightarrow> string \<Rightarrow> 'm \<times> go_error option"
  domain_Len :: "'m \<Rightarrow> nat"
  domain_Match :: "'m \<Rightarrow> string \<Rightarrow> bool"
  domain_LoadFromTextReader :: "'m \<Rightarrow> string \<Rightarrow> 'm \<times> go_error option"

record domain_Args = Args +
  Exps :: "string list"

text \<open>\<^verbatim>\<open>LoadExps\<close>, lines 118-125; \<open>i\<close> is the index of the head of the list.\<close>

fun LoadExps_from :: "'m domain_pkg \<Rightarrow> nat \<Rightarrow> string list \<Rightarrow> 'm \<Rightarrow> 'm \<times> go_error option" where
  "LoadExps_from P i [] m = (m, None)"
| "LoadExps_from P i (exp # exps) m =
     (case domain_Add P m exp of
        (m', Some err) \<Rightarrow>
          (m', Some (Errorf (''failed to load expression #'' @ itoa i @ '' '' @ exp @ '', '' @ Error err) err))
      | (m', None) \<Rightarrow> LoadExps_from P (Suc i) exps m')"

definition LoadExps :: "'m domain_pkg \<Rightarrow> string list \<Rightarrow> 'm \<Rightarrow> 'm \<times> go_error option" where
  "LoadExps P exps m = LoadExps_from P 0 exps m"

text \<open>\<^verbatim>\<open>LoadFile\<close>, lines 136-148.\<close>

definition LoadFile :: "'m domain_pkg \<Rightarrow> os_state \<Rightarrow> string \<Rightarrow> 'm \<Rightarrow> 'm \<times> go_error option" where
  "LoadFile P s f m =
     (if length f > 0 then
        (case os_ReadFile s f of
           Inl err \<Rightarrow> (m, Some err)
         | Inr b \<Rightarrow> domain_LoadFromTextReader P m b)
      else (m, None))"

text \<open>\<^verbatim>\<open>LoadFiles\<close>, lines 127-134.\<close>

fun LoadFiles_from :: "'m domain_pkg \<Rightarrow> os_state \<Rightarrow> nat \<Rightarrow> string list \<Rightarrow> 'm \<Rightarrow> 'm \<times> go_error option" where
  "LoadFiles_from P s i [] m = (m, None)"
| "LoadFiles_from P s i (f # fs) m =
     (case LoadFile P s f m of
        (m', Some err) \<Rightarrow>
          (m', Some (Errorf (''failed to load file #'' @ itoa i @ '' '' @ f @ '', '' @ Error err) err))
      | (m', None) \<Rightarrow> LoadFiles_from P s (Suc i) fs m')"

definition LoadFiles :: "'m domain_pkg \<Rightarrow> os_state \<Rightarrow> string list \<Rightarrow> 'm \<Rightarrow> 'm \<times> go_error option" where
  "LoadFiles P s fs m = LoadFiles_from P s 0 fs m"

text \<open>\<^verbatim>\<open>LoadExpsAndFiles\<close>, lines 108-116.\<close>

definition LoadExpsAndFiles ::
  "'m domain_pkg \<Rightarrow> os_state \<Rightarrow> string list \<Rightarrow> string list \<Rightarrow> 'm \<Rightarrow> 'm \<times> go_error option" where
  "LoadExpsAndFiles P s exps fs m =
     (case LoadExps P exps m of
        (m', Some err) \<Rightarrow> (m', Some err)
      | (m', None) \<Rightarrow> LoadFiles P s fs m')"

text \<open>\<^verbatim>\<open>LoadRemoteFile\<close>, lines 150-177.\<close>

definition LoadRemoteFile ::
  "'m domain_pkg \<Rightarrow> os_env \<Rightarrow> RemoteFile \<Rightarrow> os_state \<times> 'm \<Rightarrow> os_state \<times> 'm \<times> go_error option" where
  "LoadRemoteFile P E rf sm =
     (case sm of (s, m) \<Rightarrow>
      let dir = filepath_Dir E (Path rf) in
      case (if dir \<noteq> [] then os_MkdirAll E (downloads s) dir else None) of
        Some err \<Rightarrow> (s, m, Some (Errorf (''failed to create directory '' @ dir @ '': '' @ Error err) err))
      | None \<Rightarrow>
          (case (if os_IsNotExist s (Path rf) then downloadFile E (URL rf) (Path rf) s else (s, None)) of
             (s1, Some err) \<Rightarrow> (s1, m, Some err)
           | (s1, None) \<Rightarrow>
               (case LoadFile P s1 (Path rf) m of
                  (m1, Some err) \<Rightarrow> (s1, m1, Some err)
                | (m1, None) \<Rightarrow>
                    (case downloadFile E (URL rf) (Path rf) s1 of
                       (s2, Some err) \<Rightarrow>
                         (s2, m1, Some (Errorf (''failed to update remote file: '' @ Error err) err))
                     | (s2, None) \<Rightarrow>
                         (case LoadFile P s2 (Path rf) m1 of (m2, e) \<Rightarrow> (s2, m2, e))))))"

text \<open>
  One iteration of the loop of \<^verbatim>\<open>updateRemoteFile\<close>, lines 183-195, for the goroutine
  holding the pointer \<open>a\<close>. The assignment \<^verbatim>\<open>*m = *newMatcher\<close> writes the cell \<open>a\<close>.
\<close>

definition domain_updateRemoteFile_tick ::
  "'m domain_pkg \<Rightarrow> os_env \<Rightarrow> RemoteFile \<Rightarrow> nat \<Rightarrow> 'm runtime \<Rightarrow> 'm runtime" where
  "domain_updateRemoteFile_tick P E rf a rt =
     (let newMatcher = domain_NewDomainMixMatcher P in
      case downloadFile E (URL rf) (Path rf) (rt_os rt) of
        (s1, Some err) \<Rightarrow> rt\<lparr>rt_os := s1\<rparr>
      | (s1, None) \<Rightarrow>
          (case LoadFile P s1 (Path rf) newMatcher of
             (newMatcher', Some err) \<Rightarrow> rt\<lparr>rt_os := s1\<rparr>
           | (newMatcher', None) \<Rightarrow> rt\<lparr>rt_os := s1, rt_heap := (rt_heap rt)[a := newMatcher']\<rparr>))"

fun domain_updateRemoteFile ::
  "'m domain_pkg \<Rightarrow> os_env \<Rightarrow> RemoteFile \<Rightarrow> nat \<Rightarrow> nat \<Rightarrow> 'm runtime \<Rightarrow> 'm runtime" where
  "domain_updateRemoteFile P E rf a 0 rt = rt"
| "domain_updateRemoteFile P E rf a (Suc n) rt =
     domain_updateRemoteFile P E rf a n (domain_updateRemoteFile_tick P E rf a rt)"

fun domain_run_ticks :: "'m domain_pkg \<Rightarrow> os_env \<Rightarrow> nat list \<Rightarrow> 'm runtime \<Rightarrow> 'm runtime" where
  "domain_run_ticks P E [] rt = rt"
| "domain_run_ticks P E (g # sched) rt =
     (if g < length (rt_goroutines rt)
      then (case rt_goroutines rt ! g of
              (rf, a) \<Rightarrow> domain_run_ticks P E sched (domain_updateRemoteFile_tick P E rf a rt))
      else domain_run_ticks P E sched rt)"

text \<open>
  The loop over \<^verbatim>\<open>args.RemoteFiles\<close> in \<^verbatim>\<open>NewDomainSet\<close>, lines 83-91, with the same
  bound on the interval as for the IP set.
\<close>

fun NewDomainSet_remotes ::
  "'m domain_pkg \<Rightarrow> os_env \<Rightarrow> nat \<Rightarrow> RemoteFile list \<Rightarrow> os_state \<times> 'm \<times> (RemoteFile \<times> nat) list
     \<Rightarrow> os_state \<times> 'm \<times> (RemoteFile \<times> nat) list \<times> go_error option" where
  "NewDomainSet_remotes P E a [] (s, m, started) = (s, m, started, None)"
| "NewDomainSet_remotes P E a (rf # rfs) (s, m, started) =
     (case LoadRemoteFile P E rf (s, m) of
        (s', m', Some err) \<Rightarrow>
          (s', m', started,
           Some (Errorf (''failed to load remote file '' @ URL rf @ '': '' @ Error err) err))
      | (s', m', None) \<Rightarrow>
          NewDomainSet_remotes P E a rfs
            (s', m', if Interval rf > 0 then started @ [(rf, a)] else started))"

text \<open>The loop over \<^verbatim>\<open>args.Sets\<close>, lines 97-104.\<close>

fun NewDomainSet_sets ::
  "(string \<Rightarrow> string Matcher option) \<Rightarrow> string list \<Rightarrow> string component list
     \<Rightarrow> go_error + string component list" where
  "NewDomainSet_sets GetPlugin [] mg = Inr mg"
| "NewDomainSet_sets GetPlugin (tag # tags) mg =
     (case GetPlugin tag of
        None \<Rightarrow> Inl (ErrorNew (tag @ '' is not a DomainMatcherProvider''))
      | Some m \<Rightarrow> NewDomainSet_sets GetPlugin tags (mg @ [Provided m]))"

text \<open>\<^verbatim>\<open>NewDomainSet\<close>, lines 74-106.\<close>

definition NewDomainSet ::
  "'m domain_pkg \<Rightarrow> os_env \<Rightarrow> (string \<Rightarrow> string Matcher option) \<Rightarrow> domain_Args \<Rightarrow> 'm runtime
     \<Rightarrow> (go_error + string component list) \<times> 'm runtime" where
  "NewDomainSet P E GetPlugin args rt =
     (let a = length (rt_heap rt) in
      case LoadExpsAndFiles P (rt_os rt) (Exps args) (Files args) (domain_NewDomainMixMatcher P) of
        (m, Some err) \<Rightarrow> (Inl err, rt\<lparr>rt_heap := rt_heap rt @ [m]\<rparr>)
      | (m, None) \<Rightarrow>
          (case NewDomainSet_remotes P E a (RemoteFiles args) (rt_os rt, m, []) of
             (s, m', started, Some err) \<Rightarrow>
               (Inl err,
                \<lparr>rt_os = s, rt_heap = rt_heap rt @ [m'], rt_goroutines = rt_goroutines rt @ started\<rparr>)
           | (s, m', started, None) \<Rightarrow>
               (let mg = (if domain_Len P m' > 0 then [Pointer a] else [])
                in (NewDomainSet_sets GetPlugin (Sets args) mg,
                    \<lparr>rt_os = s, rt_heap = rt_heap rt @ [m'], rt_goroutines = rt_goroutines rt @ started\<rparr>))))"

section \<open>Instances of the two matcher packages\<close>

text \<open>
  Modelled from the spec: the readers \<^verbatim>\<open>netlist.LoadFromReader\<close> and
  \<^verbatim>\<open>domain.LoadFromTextReader\<close> are missing. The spec says that file content is
  line-oriented. \<open>text_lines [] b\<close> is the list of the lines of \<open>b\<close>, split at each line
  feed, with no empty last line after a final line feed.
\<close>

fun text_lines :: "string \<Rightarrow> string \<Rightarrow> string list" where
  "text_lines cur [] = (if cur = [] then [] else [cur])"
| "text_lines cur (c # cs) =
     (if c = CHR 0x0A then cur # text_lines [] cs else text_lines (cur @ [c]) cs)"

text \<open>
  Modelled from the spec: the type \<^verbatim>\<open>netlist.List\<close> is missing. The spec describes a
  prefix collection with a sortedness invariant; here it is the prefixes in the order
  of insertion and a flag that holds when the invariant has been restored.
\<close>

record List =
  List_e :: "netip_Prefix list"
  List_sorted :: bool

text \<open>
  Modelled from the spec: \<^verbatim>\<open>netlist.LoadFromReader\<close> is missing. The spec says that
  each line is handed to the same expression parser as used for inline rules, here
  \<open>parseNetipPrefix\<close>; the first line that fails ends the load with its error, the
  prefixes of the lines before it stay in the list.
\<close>

fun netlist_load_lines ::
  "(string \<Rightarrow> go_error + netip_Addr) \<Rightarrow> string list \<Rightarrow> List \<Rightarrow> List \<times> go_error option" where
  "netlist_load_lines parseIPv6 [] l = (l, None)"
| "netlist_load_lines parseIPv6 (ln # lns) l =
     (case parseNetipPrefix parseIPv6 ln of
        Inl err \<Rightarrow> (l, Some err)
      | Inr p \<Rightarrow> netlist_load_lines parseIPv6 lns (l\<lparr>List_e := List_e l @ [p], List_sorted := False\<rparr>))"

text \<open>
  Modelled from the spec: the package \<^verbatim>\<open>pkg/matcher/netlist\<close> is missing. The spec
  gives its contract as: register a prefix, test a key, report count, and maintain a
  sort invariant that must be restored after every bulk mutation and before any
  lookup. \<^verbatim>\<open>Sort\<close> restores the flag, \<^verbatim>\<open>Append\<close> and loading clear it, and \<^verbatim>\<open>Match\<close> on a
  sorted list tests whether some prefix contains the address (on a list that is not
  sorted it finds nothing).
\<close>

definition netlist_spec :: "(string \<Rightarrow> go_error + netip_Addr) \<Rightarrow> List netlist_pkg" where
  "netlist_spec parseIPv6 =
     \<lparr>netlist_NewList = \<lparr>List_e = [], List_sorted = False\<rparr>,
      netlist_Append = (\<lambda>l p. l\<lparr>List_e := List_e l @ [p], List_sorted := False\<rparr>),
      netlist_Sort = (\<lambda>l. l\<lparr>List_sorted := True\<rparr>),
      netlist_Len = (\<lambda>l. length (List_e l)),
      netlist_Match = (\<lambda>l addr. List_sorted l \<and> list_ex (\<lambda>p. Prefix_Contains p addr) (List_e l)),
      netlist_LoadFromReader = (\<lambda>l b. netlist_load_lines parseIPv6 (text_lines [] b) l)\<rparr>"

text \<open>
  Modelled from the spec: \<^verbatim>\<open>domain.LoadFromTextReader\<close> is missing. The spec says that
  each line is handed to the same expression parser as used for inline rules, here the
  parameter \<open>parse\<close>; the first line that fails ends the load with its error.
\<close>

fun domain_load_lines ::
  "(string \<Rightarrow> go_error + 'r) \<Rightarrow> string list \<Rightarrow> 'r list \<Rightarrow> 'r list \<times> go_error option" where
  "domain_load_lines parse [] m = (m, None)"
| "domain_load_lines parse (ln # lns) m =
     (case parse ln of
        Inl err \<Rightarrow> (m, Some err)
      | Inr r \<Rightarrow> domain_load_lines parse lns (m @ [r]))"

text \<open>
  Modelled from the spec: the package \<^verbatim>\<open>pkg/matcher/domain\<close> is missing. The spec
  gives its contract as: register a pattern, test a key, report count (a
  presence-only set). The syntax of expressions and the matching modes are outside
  the spec, so the parser \<open>parse\<close> and the test \<open>admits\<close> of one rule against a name
  are parameters; a matcher is the list of its rules.
\<close>

definition domain_spec :: "(string \<Rightarrow> go_error + 'r) \<Rightarrow> ('r \<Rightarrow> string \<Rightarrow> bool) \<Rightarrow> 'r list domain_pkg" where
  "domain_spec parse admits =
     \<lparr>domain_NewDomainMixMatcher = [],
      domain_Add = (\<lambda>m exp. case parse exp of Inl err \<Rightarrow> (m, Some err) | Inr r \<Rightarrow> (m @ [r], None)),
      domain_Len = length,
      domain_Match = (\<lambda>m name. list_ex (\<lambda>r. admits r name) m),
      domain_LoadFromTextReader = (\<lambda>m b. domain_load_lines parse (text_lines [] b) m)\<rparr>"

text \<open>
  Modelled from the spec: the expression parser of \<^verbatim>\<open>pkg/matcher/domain\<close> is missing
  and the spec leaves its syntax open. The plainest rules serve as an instance: an
  expression is a non-empty name without a space and matches that name only.
\<close>

definition parse_exact :: "string \<Rightarrow> go_error + string" where
  "parse_exact exp =
     (if exp = [] \<or> CHR '' '' \<in> set exp then Inl (ErrorNew ''invalid domain'') else Inr exp)"

definition admits_exact :: "string \<Rightarrow> string \<Rightarrow> bool" where
  "admits_exact r name = (r = name)"

section \<open>Concrete inputs\<close>

text \<open>An IPv6 parser that accepts nothing: the examples use IPv4 text only.\<close>

definition no_parseIPv6 :: "string \<Rightarrow> go_error + netip_Addr" where
  "no_parseIPv6 s = Inl (ErrorNew ''unable to parse IP'')"

text \<open>
  \<open>env_serving body1 body2\<close>: every call succeeds; the first two downloads get \<open>body1\<close>
  and every later one gets \<open>body2\<close>. \<open>env_offline\<close>: every \<^verbatim>\<open>http.Get\<close> fails.
\<close>

definition env_serving :: "string \<Rightarrow> string \<Rightarrow> os_env" where
  "env_serving body1 body2 =
     \<lparr>filepath_Dir = (\<lambda>p. ''cache''),
      os_MkdirAll = (\<lambda>n d. None),
      http_Get = (\<lambda>n u. Response 200 ''200 OK'' (if n < 2 then body1 else body2)),
      os_Create = (\<lambda>n p. None),
      io_Copy = (\<lambda>n. None)\<rparr>"

definition env_offline :: os_env where
  "env_offline =
     \<lparr>filepath_Dir = (\<lambda>p. ''cache''),
      os_MkdirAll = (\<lambda>n d. None),
      http_Get = (\<lambda>n u. TransportError (ErrorNew ''connection refused'')),
      os_Create = (\<lambda>n p. None),
      io_Copy = (\<lambda>n. None)\<rparr>"

definition rf_example :: RemoteFile where
  "rf_example = \<lparr>URL = ''https://example.org/list.txt'', Path = ''cache/list.txt'', Interval = 60\<rparr>"

definition os_empty :: os_state where
  "os_empty = \<lparr>files = Map.empty, downloads = 0\<rparr>"

definition os_with :: "string \<Rightarrow> string \<Rightarrow> os_state" where
  "os_with path content = \<lparr>files = [path \<mapsto> content], downloads = 0\<rparr>"

definition rt_start :: "os_state \<Rightarrow> 'm runtime" where
  "rt_start s = \<lparr>rt_os = s, rt_heap = [], rt_goroutines = []\<rparr>"

definition ip_args_example :: "string list \<Rightarrow> RemoteFile list \<Rightarrow> ip_Args" where
  "ip_args_example ips rfs = \<lparr>Sets = [], Files = [], RemoteFiles = rfs, IPs = ips\<rparr>"

definition domain_args_example :: "string list \<Rightarrow> RemoteFile list \<Rightarrow> domain_Args" where
  "domain_args_example exps rfs = \<lparr>Sets = [], Files = [], RemoteFiles = rfs, Exps = exps\<rparr>"

definition no_plugins :: "string \<Rightarrow> 'k Matcher option" where
  "no_plugins tag = None"

section \<open>Properties of the matcher group\<close>

lemma MatcherGroup_Match_iff: "MatcherGroup_Match mg addr \<longleftrightarrow> (\<exists>m \<in> set mg. m addr)"
  by (induction mg) auto

lemma MatcherGroup_Match_calls_result:
  "fst (MatcherGroup_Match_calls mg addr) = MatcherGroup_Match mg addr"
  by (induction mg) (auto split: prod.splits)

lemma MatcherGroup_Match_calls_prefix:
  "snd (MatcherGroup_Match_calls mg addr) =
     takeWhile (\<lambda>m. \<not> m addr) mg @ take 1 (dropWhile (\<lambda>m. \<not> m addr) mg)"
  by (induction mg) (auto split: prod.splits)

lemma MatcherGroup_Match_calls_all:
  assumes "\<forall>m \<in> set mg. \<not> m addr"
  shows "snd (MatcherGroup_Match_calls mg addr) = mg"
proof -
  have t: "takeWhile (\<lambda>m. \<not> m addr) mg = mg"
    using assms by (simp add: takeWhile_eq_all_conv)
  have d: "dropWhile (\<lambda>m. \<not> m addr) mg = []"
    using assms by simp
  show ?thesis
    by (simp add: MatcherGroup_Match_calls_prefix t d)
qed

text \<open>
  C6. For every matcher group and key, \<open>Match\<close> is true exactly when some component
  matches the key. The loop calls the components in order and stops at the first hit:
  the components it calls are those before the first hit followed by the first hit
  itself (all of them when none hits). On the empty group, and when no component
  matches, the result is false.
\<close>

theorem C6_group_match_is_short_circuit_or:
  "(MatcherGroup_Match mg addr \<longleftrightarrow> (\<exists>m \<in> set mg. m addr))
   \<and> fst (MatcherGroup_Match_calls mg addr) = MatcherGroup_Match mg addr
   \<and> snd (MatcherGroup_Match_calls mg addr) =
       takeWhile (\<lambda>m. \<not> m addr) mg @ take 1 (dropWhile (\<lambda>m. \<not> m addr) mg)
   \<and> \<not> MatcherGroup_Match [] addr
   \<and> ((\<forall>m \<in> set mg. \<not> m addr) \<longrightarrow>
        \<not> MatcherGroup_Match mg addr \<and> snd (MatcherGroup_Match_calls mg addr) = mg)"
proof (intro conjI impI)
  show "MatcherGroup_Match mg addr \<longleftrightarrow> (\<exists>m \<in> set mg. m addr)"
    by (rule MatcherGroup_Match_iff)
  show "fst (MatcherGroup_Match_calls mg addr) = MatcherGroup_Match mg addr"
    by (rule MatcherGroup_Match_calls_result)
  show "snd (MatcherGroup_Match_calls mg addr) =
       takeWhile (\<lambda>m. \<not> m addr) mg @ take 1 (dropWhile (\<lambda>m. \<not> m addr) mg)"
    by (rule MatcherGroup_Match_calls_prefix)
  show "\<not> MatcherGroup_Match [] addr"
    by simp
next
  assume "\<forall>m \<in> set mg. \<not> m addr"
  then show "\<not> MatcherGroup_Match mg addr"
    by (simp add: MatcherGroup_Match_iff)
next
  assume "\<forall>m \<in> set mg. \<not> m addr"
  then show "snd (MatcherGroup_Match_calls mg addr) = mg"
    by (rule MatcherGroup_Match_calls_all)
qed

theorem C6_group_match_witness:
  "MatcherGroup_Match [(\<lambda>n. n = (1::nat)), (\<lambda>n. n = 2), (\<lambda>n. 1 < n)] 2
   \<and> length (snd (MatcherGroup_Match_calls [(\<lambda>n. n = (1::nat)), (\<lambda>n. n = 2), (\<lambda>n. 1 < n)] 2)) = 2
   \<and> \<not> MatcherGroup_Match [(\<lambda>n. n = (1::nat)), (\<lambda>n. n = 2), (\<lambda>n. 1 < n)] 0
   \<and> length (snd (MatcherGroup_Match_calls [(\<lambda>n. n = (1::nat)), (\<lambda>n. n = 2), (\<lambda>n. 1 < n)] 0)) = 3"
  using C6_group_match_is_short_circuit_or
    [of "[(\<lambda>n. n = (1::nat)), (\<lambda>n. n = 2), (\<lambda>n. 1 < n)]" 2]
    C6_group_match_is_short_circuit_or
    [of "[(\<lambda>n. n = (1::nat)), (\<lambda>n. n = 2), (\<lambda>n. 1 < n)]" 0]
  by simp

text \<open>
  C9. For every matcher group, every permutation of its components and every key,
  \<open>Match\<close> on the permuted group returns the same boolean as on the original group.
\<close>

theorem C9_group_match_permutation_invariant:
  "mset mg' = mset mg \<Longrightarrow> MatcherGroup_Match mg' addr = MatcherGroup_Match mg addr"
proof -
  assume "mset mg' = mset mg"
  then have "set mg' = set mg"
    by (rule mset_eq_setD)
  then show ?thesis
    by (simp add: MatcherGroup_Match_iff)
qed

theorem C9_group_match_permutation_witness:
  "mset [(\<lambda>n. 1 < n), (\<lambda>n. n = (1::nat)), (\<lambda>n. n = 2)]
     = mset [(\<lambda>n. n = (1::nat)), (\<lambda>n. n = 2), (\<lambda>n. 1 < n)]
   \<and> MatcherGroup_Match [(\<lambda>n. 1 < n), (\<lambda>n. n = (1::nat)), (\<lambda>n. n = 2)] 2
     = MatcherGroup_Match [(\<lambda>n. n = (1::nat)), (\<lambda>n. n = 2), (\<lambda>n. 1 < n)] 2"
proof -
  have p: "mset [(\<lambda>n. 1 < n), (\<lambda>n. n = (1::nat)), (\<lambda>n. n = 2)]
     = mset [(\<lambda>n. n = (1::nat)), (\<lambda>n. n = 2), (\<lambda>n. 1 < n)]"
    by (simp add: add.commute)
  show ?thesis
    using p C9_group_match_permutation_invariant [OF p, of 2] by simp
qed

section \<open>Facts about downloads and refresh ticks\<close>

lemmas ex_defs = env_serving_def env_offline_def rf_example_def os_empty_def os_with_def rt_start_def
  ip_args_example_def domain_args_example_def no_plugins_def no_parseIPv6_def
lemmas parse_defs = parseNetipPrefix_def ParsePrefix_def ParseAddr_def parseIPv4_def is_digit_def digit_val_def
  AddrFrom4_def strconv_Atoi_def PrefixFrom_def
lemmas ip_set_defs = NewIPSet_def LoadFromIPsAndFiles_def LoadFromIPs_def LoadFromFiles_def LoadFromFile_def
  LoadFromRemoteFile_def downloadFile_def os_ReadFile_def os_IsNotExist_def netlist_spec_def
  ip_updateRemoteFile_tick_def GetIPMatcher_def

lemmas dom_defs = NewDomainSet_def LoadExpsAndFiles_def LoadExps_def LoadFiles_def LoadFile_def
  LoadRemoteFile_def downloadFile_def os_ReadFile_def os_IsNotExist_def domain_spec_def parse_exact_def
  admits_exact_def domain_updateRemoteFile_tick_def

lemma downloadFile_ok:
  assumes "downloadFile E url p s = (s', None)"
  shows "\<exists>st body. http_Get E (downloads s) url = Response 200 st body
           \<and> s' = s\<lparr>downloads := Suc (downloads s), files := (files s)(p \<mapsto> body)\<rparr>"
  using assms
  by (auto simp: downloadFile_def Let_def split: http_reply.splits if_splits option.splits prod.splits)

lemma ip_tick_cases:
  "ip_updateRemoteFile_tick P E rf a rt =
     (if snd (downloadFile E (URL rf) (Path rf) (rt_os rt)) = None
         \<and> snd (LoadFromFile P (fst (downloadFile E (URL rf) (Path rf) (rt_os rt))) (Path rf) (netlist_NewList P)) = None
      then rt\<lparr>rt_os := fst (downloadFile E (URL rf) (Path rf) (rt_os rt)),
              rt_heap := (rt_heap rt)[a := netlist_Sort P
                 (fst (LoadFromFile P (fst (downloadFile E (URL rf) (Path rf) (rt_os rt))) (Path rf) (netlist_NewList P)))]\<rparr>
      else rt\<lparr>rt_os := fst (downloadFile E (URL rf) (Path rf) (rt_os rt))\<rparr>)"
  by (simp add: ip_updateRemoteFile_tick_def Let_def split: prod.splits option.splits)

lemma domain_tick_cases:
  "domain_updateRemoteFile_tick P E rf a rt =
     (if snd (downloadFile E (URL rf) (Path rf) (rt_os rt)) = None
         \<and> snd (LoadFile P (fst (downloadFile E (URL rf) (Path rf) (rt_os rt))) (Path rf) (domain_NewDomainMixMatcher P)) = None
      then rt\<lparr>rt_os := fst (downloadFile E (URL rf) (Path rf) (rt_os rt)),
              rt_heap := (rt_heap rt)[a := 
                 (fst (LoadFile P (fst (downloadFile E (URL rf) (Path rf) (rt_os rt))) (Path rf) (domain_NewDomainMixMatcher P)))]\<rparr>
      else rt\<lparr>rt_os := fst (downloadFile E (URL rf) (Path rf) (rt_os rt))\<rparr>)"
  by (simp add: domain_updateRemoteFile_tick_def Let_def split: prod.splits option.splits)

lemma ip_tick_failed:
  assumes "snd (downloadFile E (URL rf) (Path rf) (rt_os rt)) \<noteq> None
      \<or> snd (LoadFromFile P (fst (downloadFile E (URL rf) (Path rf) (rt_os rt))) (Path rf) (netlist_NewList P)) \<noteq> None"
  shows "ip_updateRemoteFile_tick P E rf a rt = rt\<lparr>rt_os := fst (downloadFile E (URL rf) (Path rf) (rt_os rt))\<rparr>"
  using assms unfolding ip_tick_cases by auto

lemma domain_tick_failed:
  assumes "snd (downloadFile E (URL rf) (Path rf) (rt_os rt)) \<noteq> None
      \<or> snd (LoadFile P (fst (downloadFile E (URL rf) (Path rf) (rt_os rt))) (Path rf) (domain_NewDomainMixMatcher P)) \<noteq> None"
  shows "domain_updateRemoteFile_tick P E rf a rt = rt\<lparr>rt_os := fst (downloadFile E (URL rf) (Path rf) (rt_os rt))\<rparr>"
  using assms unfolding domain_tick_cases by auto

lemma downloadFile_failed_files:
  "snd (downloadFile E url p s) \<noteq> None \<Longrightarrow> downloads (fst (downloadFile E url p s)) = Suc (downloads s)"
  by (auto simp: downloadFile_def Let_def split: http_reply.splits if_splits option.splits prod.splits)

lemma downloadFile_ok_body:
  assumes "snd (downloadFile E url p s) = None" "http_Get E (downloads s) url = Response code status body"
  shows "files (fst (downloadFile E url p s)) p = Some body"
proof -
  obtain s' where d: "downloadFile E url p s = (s', None)"
    using assms(1) by (cases "downloadFile E url p s") auto
  from downloadFile_ok [OF d] assms(2) show ?thesis
    by (auto simp: d)
qed

lemma LoadRemoteFile_existing:
  assumes "files s (Path rf) = Some c0" "Path rf \<noteq> []"
    and "filepath_Dir E (Path rf) = [] \<or> os_MkdirAll E (downloads s) (filepath_Dir E (Path rf)) = None"
  shows "LoadRemoteFile P E rf (s, m) =
     (case domain_LoadFromTextReader P m c0 of
        (m1, Some err) \<Rightarrow> (s, m1, Some err)
      | (m1, None) \<Rightarrow>
          (case downloadFile E (URL rf) (Path rf) s of
             (s2, Some err) \<Rightarrow> (s2, m1, Some (Errorf (''failed to update remote file: '' @ Error err) err))
           | (s2, None) \<Rightarrow> (s2, LoadFile P s2 (Path rf) m1)))"
  using assms
  by (auto simp: LoadRemoteFile_def Let_def os_IsNotExist_def LoadFile_def os_ReadFile_def
      split: prod.splits option.splits)

lemma LoadFromRemoteFile_existing:
  assumes "files s (Path rf) = Some c0" "Path rf \<noteq> []"
    and "filepath_Dir E (Path rf) = [] \<or> os_MkdirAll E (downloads s) (filepath_Dir E (Path rf)) = None"
  shows "LoadFromRemoteFile P E rf (s, l) =
     (case downloadFile E (URL rf) (Path rf) s of
        (s2, Some err) \<Rightarrow> (s2, fst (netlist_LoadFromReader P l c0), Some err)
      | (s2, None) \<Rightarrow> (s2, LoadFromFile P s2 (Path rf) (fst (netlist_LoadFromReader P l c0))))"
  using assms
  by (auto simp: LoadFromRemoteFile_def Let_def os_IsNotExist_def LoadFromFile_def os_ReadFile_def
      split: prod.splits option.splits)

lemma LoadExps_from_first_bad:
  assumes "LoadExps_from P j (take i exps) m = (mi, None)" "i < length exps"
    and "domain_Add P mi (exps ! i) = (m', Some cause)"
  shows "LoadExps_from P j exps m =
     (m', Some (Errorf (''failed to load expression #'' @ itoa (j + i) @ '' '' @ exps ! i @ '', '' @ Error cause) cause))"
  using assms
proof (induction exps arbitrary: j i m)
  case Nil
  then show ?case by simp
next
  case (Cons x xs)
  show ?case
  proof (cases i)
    case 0
    with Cons.prems show ?thesis by simp
  next
    case (Suc i')
    obtain m1 e1 where a: "domain_Add P m x = (m1, e1)"
      by (cases "domain_Add P m x")
    from Cons.prems(1) Suc a have e1: "e1 = None"
      by (cases e1) auto
    from Cons.prems(1) Suc a e1 have t: "LoadExps_from P (Suc j) (take i' xs) m1 = (mi, None)"
      by simp
    from Cons.prems(2) Suc have l: "i' < length xs"
      by simp
    from Cons.prems(3) Suc have b: "domain_Add P mi (xs ! i') = (m', Some cause)"
      by simp
    from Cons.IH [OF t l b] show ?thesis
      by (simp add: a e1 Suc)
  qed
qed

lemma LoadFromIPs_from_first_bad:
  assumes "i < length ips" "parseNetipPrefix p6 (ips ! i) = Inl cause"
    and "\<forall>k<i. \<exists>p. parseNetipPrefix p6 (ips ! k) = Inr p"
  shows "snd (LoadFromIPs_from p6 P j ips l) =
     Some (Errorf (''invalid ip #'' @ itoa (j + i) @ '' '' @ ips ! i @ '', '' @ Error cause) cause)"
  using assms
proof (induction ips arbitrary: j i l)
  case Nil
  then show ?case by simp
next
  case (Cons x xs)
  show ?case
  proof (cases i)
    case 0
    with Cons.prems show ?thesis by simp
  next
    case (Suc i')
    from Cons.prems(3) Suc obtain p where p: "parseNetipPrefix p6 x = Inr p"
      by fastforce
    have l: "i' < length xs" using Cons.prems(1) Suc by simp
    have b: "parseNetipPrefix p6 (xs ! i') = Inl cause" using Cons.prems(2) Suc by simp
    have c: "\<forall>k<i'. \<exists>p. parseNetipPrefix p6 (xs ! k) = Inr p"
    proof (intro allI impI)
      fix k assume "k < i'"
      then have "Suc k < i" using Suc by simp
      with Cons.prems(3) have "\<exists>p. parseNetipPrefix p6 ((x # xs) ! Suc k) = Inr p" by blast
      then show "\<exists>p. parseNetipPrefix p6 (xs ! k) = Inr p" by simp
    qed
    from Cons.IH [OF l b c, of "Suc j" "netlist_Append P l p"] show ?thesis
      by (simp add: p Suc)
  qed
qed

lemma LoadFromIPs_from_some_bad:
  assumes "i < length ips" "parseNetipPrefix p6 (ips ! i) = Inl cause"
  shows "snd (LoadFromIPs_from p6 P j ips l) \<noteq> None"
  using assms
proof (induction ips arbitrary: j i l)
  case Nil
  then show ?case by simp
next
  case (Cons x xs)
  show ?case
  proof (cases "parseNetipPrefix p6 x")
    case (Inl e)
    then show ?thesis by simp
  next
    case (Inr p)
    with Cons.prems obtain i' where i: "i = Suc i'"
      by (cases i) auto
    with Cons.prems have "i' < length xs" "parseNetipPrefix p6 (xs ! i') = Inl cause"
      by simp_all
    from Cons.IH [OF this] show ?thesis
      by (simp add: Inr)
  qed
qed

lemma NewDomainSet_exps_error:
  assumes "LoadExps P (Exps args) (domain_NewDomainMixMatcher P) = (m', Some e)"
  shows "NewDomainSet P E GetPlugin args rt = (Inl e, rt\<lparr>rt_heap := rt_heap rt @ [m']\<rparr>)"
  using assms by (simp add: NewDomainSet_def LoadExpsAndFiles_def Let_def)

lemma NewIPSet_ips_error:
  assumes "snd (LoadFromIPs p6 P (IPs args) (netlist_NewList P)) = Some e"
  shows "NewIPSet p6 P E GetPlugin args rt
     = (Inl e, rt\<lparr>rt_heap := rt_heap rt @ [fst (LoadFromIPs p6 P (IPs args) (netlist_NewList P))]\<rparr>)"
  using assms
  by (cases "LoadFromIPs p6 P (IPs args) (netlist_NewList P)")
     (simp add: NewIPSet_def LoadFromIPsAndFiles_def Let_def)

lemma sublist_mid: "sublist x (a @ x @ b)"
  by (rule sublist_appendI)

lemma NewDomainSet_remotes_append:
  "NewDomainSet_remotes P E a (pre @ rest) (s, m, started) =
     (case NewDomainSet_remotes P E a pre (s, m, started) of
        (s', m', started', Some err) \<Rightarrow> (s', m', started', Some err)
      | (s', m', started', None) \<Rightarrow> NewDomainSet_remotes P E a rest (s', m', started'))"
  by (induction pre arbitrary: s m started) (auto split: prod.splits option.splits)

lemma NewIPSet_remotes_append:
  "NewIPSet_remotes P E a (pre @ rest) (s, l, started) =
     (case NewIPSet_remotes P E a pre (s, l, started) of
        (s', l', started', Some err) \<Rightarrow> (s', l', started', Some err)
      | (s', l', started', None) \<Rightarrow> NewIPSet_remotes P E a rest (s', l', started'))"
  by (induction pre arbitrary: s l started) (auto split: prod.splits option.splits)

lemma NewDomainSet_remote_error:
  assumes e: "LoadExpsAndFiles P (rt_os rt) (Exps args) (Files args) (domain_NewDomainMixMatcher P) = (m0, None)"
    and r: "RemoteFiles args = pre @ rf # rfs"
    and p: "NewDomainSet_remotes P E (length (rt_heap rt)) pre (rt_os rt, m0, []) = (s, m, started, None)"
    and f: "snd (snd (LoadRemoteFile P E rf (s, m))) = Some err"
  shows "fst (NewDomainSet P E GetPlugin args rt)
     = Inl (Errorf (''failed to load remote file '' @ URL rf @ '': '' @ Error err) err)"
proof -
  obtain s' m' where l: "LoadRemoteFile P E rf (s, m) = (s', m', Some err)"
    using f by (cases "LoadRemoteFile P E rf (s, m)") auto
  have "NewDomainSet_remotes P E (length (rt_heap rt)) (RemoteFiles args) (rt_os rt, m0, [])
      = (s', m', started, Some (Errorf (''failed to load remote file '' @ URL rf @ '': '' @ Error err) err))"
    by (simp add: r NewDomainSet_remotes_append p l)
  then show ?thesis
    by (simp add: NewDomainSet_def e Let_def)
qed

lemma NewIPSet_remote_error:
  assumes e: "LoadFromIPsAndFiles parse_six P (rt_os rt) (IPs args) (Files args) (netlist_NewList P) = (l0, None)"
    and r: "RemoteFiles args = pre @ rf # rfs"
    and p: "NewIPSet_remotes P E (length (rt_heap rt)) pre (rt_os rt, l0, []) = (s, l, started, None)"
    and f: "snd (snd (LoadFromRemoteFile P E rf (s, l))) = Some err"
  shows "fst (NewIPSet parse_six P E GetPlugin args rt)
     = Inl (Errorf (''failed to load remote file '' @ URL rf @ '': '' @ Error err) err)"
proof -
  obtain s' l' where l: "LoadFromRemoteFile P E rf (s, l) = (s', l', Some err)"
    using f by (cases "LoadFromRemoteFile P E rf (s, l)") auto
  have "NewIPSet_remotes P E (length (rt_heap rt)) (RemoteFiles args) (rt_os rt, l0, [])
      = (s', l', started, Some (Errorf (''failed to load remote file '' @ URL rf @ '': '' @ Error err) err))"
    by (simp add: r NewIPSet_remotes_append p l)
  then show ?thesis
    by (simp add: NewIPSet_def e Let_def)
qed

section \<open>Construction with an existing local file\<close>

text \<open>
  C4. For a remote source whose local file exists at construction (and whose
  directory can be created): when the mandatory download fails, \<^verbatim>\<open>LoadRemoteFile\<close> and
  \<^verbatim>\<open>LoadFromRemoteFile\<close> fail and so do the loops of \<^verbatim>\<open>NewDomainSet\<close> and
  \<^verbatim>\<open>NewIPSet\<close> over the remote files; and whenever construction reaches that remote
  file (the inline rules and local files have loaded and the remote files before it
  have loaded), \<^verbatim>\<open>NewDomainSet\<close> and \<^verbatim>\<open>NewIPSet\<close> return no set but the error
  \<^verbatim>\<open>failed to load remote file URL: cause\<close> wrapping the error of the load. When the
  download succeeds, the local file then holds the downloaded body, and the result is
  the matcher obtained by loading the old content first and the downloaded body on top
  of it, without clearing in between.
\<close>

theorem C4_existing_file_load_download_reload:
  assumes ex: "files s (Path rf) = Some c0" and ne: "Path rf \<noteq> []"
    and mk: "filepath_Dir E (Path rf) = [] \<or> os_MkdirAll E (downloads s) (filepath_Dir E (Path rf)) = None"
  shows "(snd (downloadFile E (URL rf) (Path rf) s) \<noteq> None \<longrightarrow>
             snd (snd (LoadRemoteFile P E rf (s, m))) \<noteq> None
           \<and> snd (snd (LoadFromRemoteFile P' E rf (s, l))) \<noteq> None
           \<and> snd (snd (snd (NewDomainSet_remotes P E a (rf # rfs) (s, m, started)))) \<noteq> None
           \<and> snd (snd (snd (NewIPSet_remotes P' E a (rf # rfs) (s, l, started)))) \<noteq> None
           \<and> (LoadExpsAndFiles P (rt_os rt) (Exps args) (Files args) (domain_NewDomainMixMatcher P) = (m0, None)
                \<and> RemoteFiles args = pre @ rf # rest
                \<and> NewDomainSet_remotes P E (length (rt_heap rt)) pre (rt_os rt, m0, []) = (s, m, before, None)
              \<longrightarrow> (\<exists>err. snd (snd (LoadRemoteFile P E rf (s, m))) = Some err
                     \<and> fst (NewDomainSet P E GetPlugin args rt)
                         = Inl (Errorf (''failed to load remote file '' @ URL rf @ '': '' @ Error err) err)))
           \<and> (LoadFromIPsAndFiles parse_six P' (rt_os rt') (IPs args') (Files args') (netlist_NewList P') = (l0, None)
                \<and> RemoteFiles args' = pre' @ rf # rest'
                \<and> NewIPSet_remotes P' E (length (rt_heap rt')) pre' (rt_os rt', l0, []) = (s, l, before', None)
              \<longrightarrow> (\<exists>err. snd (snd (LoadFromRemoteFile P' E rf (s, l))) = Some err
                     \<and> fst (NewIPSet parse_six P' E GetPlugin' args' rt')
                         = Inl (Errorf (''failed to load remote file '' @ URL rf @ '': '' @ Error err) err))))
        \<and> (downloadFile E (URL rf) (Path rf) s = (s2, None) \<longrightarrow>
             (\<exists>status body. http_Get E (downloads s) (URL rf) = Response 200 status body
                \<and> files s2 (Path rf) = Some body
                \<and> (snd (domain_LoadFromTextReader P m c0) = None \<longrightarrow>
                     LoadRemoteFile P E rf (s, m)
                       = (s2, domain_LoadFromTextReader P (fst (domain_LoadFromTextReader P m c0)) body))
                \<and> LoadFromRemoteFile P' E rf (s, l)
                       = (s2, netlist_LoadFromReader P' (fst (netlist_LoadFromReader P' l c0)) body)))"
proof (intro conjI impI)
  assume f: "snd (downloadFile E (URL rf) (Path rf) s) \<noteq> None"
  show d: "snd (snd (LoadRemoteFile P E rf (s, m))) \<noteq> None"
    using f by (auto simp: LoadRemoteFile_existing [OF ex ne mk] split: prod.splits option.splits)
  show i: "snd (snd (LoadFromRemoteFile P' E rf (s, l))) \<noteq> None"
    using f by (auto simp: LoadFromRemoteFile_existing [OF ex ne mk] split: prod.splits option.splits)
  show "snd (snd (snd (NewDomainSet_remotes P E a (rf # rfs) (s, m, started)))) \<noteq> None"
    using d by (auto split: prod.splits option.splits)
  show "snd (snd (snd (NewIPSet_remotes P' E a (rf # rfs) (s, l, started)))) \<noteq> None"
    using i by (auto split: prod.splits option.splits)
  show "\<exists>err. snd (snd (LoadRemoteFile P E rf (s, m))) = Some err
           \<and> fst (NewDomainSet P E GetPlugin args rt)
               = Inl (Errorf (''failed to load remote file '' @ URL rf @ '': '' @ Error err) err)"
    if h: "LoadExpsAndFiles P (rt_os rt) (Exps args) (Files args) (domain_NewDomainMixMatcher P) = (m0, None)
           \<and> RemoteFiles args = pre @ rf # rest
           \<and> NewDomainSet_remotes P E (length (rt_heap rt)) pre (rt_os rt, m0, []) = (s, m, before, None)"
  proof -
    from d obtain err where err: "snd (snd (LoadRemoteFile P E rf (s, m))) = Some err"
      by blast
    from h have "fst (NewDomainSet P E GetPlugin args rt)
        = Inl (Errorf (''failed to load remote file '' @ URL rf @ '': '' @ Error err) err)"
      by (intro NewDomainSet_remote_error [where ?m0.0 = m0 and pre = pre and rfs = rest and s = s and m = m
            and started = before] err) simp_all
    with err show ?thesis
      by blast
  qed
  show "\<exists>err. snd (snd (LoadFromRemoteFile P' E rf (s, l))) = Some err
           \<and> fst (NewIPSet parse_six P' E GetPlugin' args' rt')
               = Inl (Errorf (''failed to load remote file '' @ URL rf @ '': '' @ Error err) err)"
    if h: "LoadFromIPsAndFiles parse_six P' (rt_os rt') (IPs args') (Files args') (netlist_NewList P') = (l0, None)
           \<and> RemoteFiles args' = pre' @ rf # rest'
           \<and> NewIPSet_remotes P' E (length (rt_heap rt')) pre' (rt_os rt', l0, []) = (s, l, before', None)"
  proof -
    from i obtain err where err: "snd (snd (LoadFromRemoteFile P' E rf (s, l))) = Some err"
      by blast
    from h have "fst (NewIPSet parse_six P' E GetPlugin' args' rt')
        = Inl (Errorf (''failed to load remote file '' @ URL rf @ '': '' @ Error err) err)"
      by (intro NewIPSet_remote_error [where ?l0.0 = l0 and pre = pre' and rfs = rest' and s = s and l = l
            and started = before'] err) simp_all
    with err show ?thesis
      by blast
  qed
next
  assume d: "downloadFile E (URL rf) (Path rf) s = (s2, None)"
  from downloadFile_ok [OF d] obtain status body
    where g: "http_Get E (downloads s) (URL rf) = Response 200 status body"
      and s2: "s2 = s\<lparr>downloads := Suc (downloads s), files := (files s)(Path rf \<mapsto> body)\<rparr>"
    by blast
  have fb: "files s2 (Path rf) = Some body"
    by (simp add: s2)
  have dom: "LoadRemoteFile P E rf (s, m)
       = (s2, domain_LoadFromTextReader P (fst (domain_LoadFromTextReader P m c0)) body)"
    if "snd (domain_LoadFromTextReader P m c0) = None"
    using that fb ne
    by (auto simp: LoadRemoteFile_existing [OF ex ne mk] d LoadFile_def os_ReadFile_def
        split: prod.splits option.splits)
  have ip: "LoadFromRemoteFile P' E rf (s, l)
       = (s2, netlist_LoadFromReader P' (fst (netlist_LoadFromReader P' l c0)) body)"
    using fb ne
    by (auto simp: LoadFromRemoteFile_existing [OF ex ne mk] d LoadFromFile_def os_ReadFile_def
        split: prod.splits option.splits)
  show "\<exists>status body. http_Get E (downloads s) (URL rf) = Response 200 status body
                \<and> files s2 (Path rf) = Some body
                \<and> (snd (domain_LoadFromTextReader P m c0) = None \<longrightarrow>
                     LoadRemoteFile P E rf (s, m)
                       = (s2, domain_LoadFromTextReader P (fst (domain_LoadFromTextReader P m c0)) body))
                \<and> LoadFromRemoteFile P' E rf (s, l)
                       = (s2, netlist_LoadFromReader P' (fst (netlist_LoadFromReader P' l c0)) body)"
  proof (intro exI conjI impI)
    show "http_Get E (downloads s) (URL rf) = Response 200 status body"
      by (rule g)
    show "files s2 (Path rf) = Some body"
      by (rule fb)
    show "LoadRemoteFile P E rf (s, m)
            = (s2, domain_LoadFromTextReader P (fst (domain_LoadFromTextReader P m c0)) body)"
      if "snd (domain_LoadFromTextReader P m c0) = None"
      using that by (rule dom)
    show "LoadFromRemoteFile P' E rf (s, l)
            = (s2, netlist_LoadFromReader P' (fst (netlist_LoadFromReader P' l c0)) body)"
      by (rule ip)
  qed
qed

theorem C4_existing_file_witness:
  "files (os_with ''cache/list.txt'' ''198.51.100.7'') (Path rf_example) = Some ''198.51.100.7''
   \<and> Path rf_example \<noteq> []
   \<and> downloadFile (env_serving ''198.51.100.0/24'' ''198.51.100.0/24'') (URL rf_example) (Path rf_example)
        (os_with ''cache/list.txt'' ''198.51.100.7'')
      = (\<lparr>files = [''cache/list.txt'' \<mapsto> ''198.51.100.0/24''], downloads = 1\<rparr>, None)
   \<and> LoadRemoteFile (domain_spec parse_exact admits_exact) (env_serving ''198.51.100.0/24'' ''198.51.100.0/24'')
        rf_example (os_with ''cache/list.txt'' ''198.51.100.7'', [])
      = (\<lparr>files = [''cache/list.txt'' \<mapsto> ''198.51.100.0/24''], downloads = 1\<rparr>,
         [''198.51.100.7'', ''198.51.100.0/24''], None)
   \<and> LoadFromRemoteFile (netlist_spec no_parseIPv6) (env_serving ''198.51.100.0/24'' ''198.51.100.0/24'')
        rf_example (os_with ''cache/list.txt'' ''198.51.100.7'', netlist_NewList (netlist_spec no_parseIPv6))
      = (\<lparr>files = [''cache/list.txt'' \<mapsto> ''198.51.100.0/24''], downloads = 1\<rparr>,
         \<lparr>List_e = [\<lparr>Prefix_Addr = Addr4 0xC6336407, Prefix_Bits = 32\<rparr>,
                    \<lparr>Prefix_Addr = Addr4 0xC6336400, Prefix_Bits = 24\<rparr>], List_sorted = False\<rparr>, None)
   \<and> snd (downloadFile env_offline (URL rf_example) (Path rf_example) (os_with ''cache/list.txt'' ''198.51.100.7'')) \<noteq> None
   \<and> snd (snd (LoadRemoteFile (domain_spec parse_exact admits_exact) env_offline
        rf_example (os_with ''cache/list.txt'' ''198.51.100.7'', []))) \<noteq> None
   \<and> snd (snd (LoadFromRemoteFile (netlist_spec no_parseIPv6) env_offline
        rf_example (os_with ''cache/list.txt'' ''198.51.100.7'', netlist_NewList (netlist_spec no_parseIPv6)))) \<noteq> None
   \<and> fst (NewDomainSet (domain_spec parse_exact admits_exact) env_offline no_plugins
        (domain_args_example [] [rf_example]) (rt_start (os_with ''cache/list.txt'' ''198.51.100.7'')))
      = Inl (Errorf
          ''failed to load remote file https://example.org/list.txt: failed to update remote file: failed to download file: connection refused''
          (Errorf ''failed to update remote file: failed to download file: connection refused''
             (Errorf ''failed to download file: connection refused'' (ErrorNew ''connection refused''))))
   \<and> fst (NewIPSet no_parseIPv6 (netlist_spec no_parseIPv6) env_offline no_plugins
        (ip_args_example [] [rf_example]) (rt_start (os_with ''cache/list.txt'' ''198.51.100.7'')))
      = Inl (Errorf
          ''failed to load remote file https://example.org/list.txt: failed to download file: connection refused''
          (Errorf ''failed to download file: connection refused'' (ErrorNew ''connection refused'')))"
proof -
  let ?s = "os_with ''cache/list.txt'' ''198.51.100.7''"
  let ?s2 = "\<lparr>files = [''cache/list.txt'' \<mapsto> ''198.51.100.0/24''], downloads = 1\<rparr>"
  let ?E = "env_serving ''198.51.100.0/24'' ''198.51.100.0/24''"
  let ?P = "domain_spec parse_exact admits_exact"
  let ?P' = "netlist_spec no_parseIPv6"
  have ex: "files ?s (Path rf_example) = Some ''198.51.100.7''"
    by (simp add: ex_defs)
  have ne: "Path rf_example \<noteq> []"
    by (simp add: ex_defs)
  have mk: "filepath_Dir ?E (Path rf_example) = []
      \<or> os_MkdirAll ?E (downloads ?s) (filepath_Dir ?E (Path rf_example)) = None"
    by (simp add: ex_defs)
  have mk': "filepath_Dir env_offline (Path rf_example) = []
      \<or> os_MkdirAll env_offline (downloads ?s) (filepath_Dir env_offline (Path rf_example)) = None"
    by (simp add: ex_defs)
  have d: "downloadFile ?E (URL rf_example) (Path rf_example) ?s = (?s2, None)"
    by (simp add: downloadFile_def ex_defs)
  have g: "http_Get ?E (downloads ?s) (URL rf_example) = Response 200 ''200 OK'' ''198.51.100.0/24''"
    by (simp add: ex_defs)
  have f: "snd (downloadFile env_offline (URL rf_example) (Path rf_example) ?s) \<noteq> None"
    by (simp add: downloadFile_def ex_defs)
  have l0: "snd (domain_LoadFromTextReader ?P [] ''198.51.100.7'') = None"
    by (simp add: domain_spec_def parse_exact_def)
  note ok = C4_existing_file_load_download_reload [OF ex ne mk, where P = ?P and m = "[]" and P' = ?P'
      and l = "netlist_NewList ?P'" and ?s2.0 = ?s2, THEN conjunct2, THEN mp, OF d]
  note bad = C4_existing_file_load_download_reload [OF ex ne mk', where P = ?P and m = "[]" and P' = ?P'
      and l = "netlist_NewList ?P'" and a = 0 and rfs = "[]" and started = "[]", THEN conjunct1, THEN mp, OF f]
  from ok g l0 have r1: "LoadRemoteFile ?P ?E rf_example (?s, [])
      = (?s2, domain_LoadFromTextReader ?P (fst (domain_LoadFromTextReader ?P [] ''198.51.100.7'')) ''198.51.100.0/24'')"
    by auto
  from ok g have r2: "LoadFromRemoteFile ?P' ?E rf_example (?s, netlist_NewList ?P')
      = (?s2, netlist_LoadFromReader ?P' (fst (netlist_LoadFromReader ?P' (netlist_NewList ?P') ''198.51.100.7''))
                ''198.51.100.0/24'')"
    by auto
  have e1: "domain_LoadFromTextReader ?P (fst (domain_LoadFromTextReader ?P [] ''198.51.100.7'')) ''198.51.100.0/24''
      = ([''198.51.100.7'', ''198.51.100.0/24''], None)"
    by (simp add: domain_spec_def parse_exact_def)
  have e2: "netlist_LoadFromReader ?P' (fst (netlist_LoadFromReader ?P' (netlist_NewList ?P') ''198.51.100.7''))
                ''198.51.100.0/24''
      = (\<lparr>List_e = [\<lparr>Prefix_Addr = Addr4 0xC6336407, Prefix_Bits = 32\<rparr>,
                    \<lparr>Prefix_Addr = Addr4 0xC6336400, Prefix_Bits = 24\<rparr>], List_sorted = False\<rparr>, None)"
    by (simp add: netlist_spec_def parse_defs no_parseIPv6_def)
  let ?rt = "rt_start ?s :: string list runtime"
  let ?rt' = "rt_start ?s :: List runtime"
  let ?args = "domain_args_example [] [rf_example]"
  let ?args' = "ip_args_example [] [rf_example]"
  have hd: "LoadExpsAndFiles ?P (rt_os ?rt) (Exps ?args) (Files ?args) (domain_NewDomainMixMatcher ?P) = ([], None)
      \<and> RemoteFiles ?args = [] @ rf_example # []
      \<and> NewDomainSet_remotes ?P env_offline (length (rt_heap ?rt)) [] (rt_os ?rt, [], []) = (?s, [], [], None)"
    by (simp add: ex_defs LoadExpsAndFiles_def LoadExps_def LoadFiles_def domain_spec_def)
  have hi: "LoadFromIPsAndFiles no_parseIPv6 ?P' (rt_os ?rt') (IPs ?args') (Files ?args') (netlist_NewList ?P')
        = (netlist_NewList ?P', None)
      \<and> RemoteFiles ?args' = [] @ rf_example # []
      \<and> NewIPSet_remotes ?P' env_offline (length (rt_heap ?rt')) [] (rt_os ?rt', netlist_NewList ?P', [])
        = (?s, netlist_NewList ?P', [], None)"
    by (simp add: ex_defs LoadFromIPsAndFiles_def LoadFromIPs_def LoadFromFiles_def)
  note build = C4_existing_file_load_download_reload [OF ex ne mk', where P = ?P and m = "[]" and P' = ?P'
      and l = "netlist_NewList ?P'" and rt = ?rt and args = ?args and ?m0.0 = "[]" and pre = "[]" and rest = "[]"
      and before = "[]" and GetPlugin = no_plugins and parse_six = no_parseIPv6 and rt' = ?rt' and args' = ?args'
      and ?l0.0 = "netlist_NewList ?P'" and pre' = "[]" and rest' = "[]" and before' = "[]"
      and GetPlugin' = no_plugins, THEN conjunct1, THEN mp, OF f]
  note build_d = build [THEN conjunct2, THEN conjunct2, THEN conjunct2, THEN conjunct2, THEN conjunct1, THEN mp, OF hd]
  note build_i = build [THEN conjunct2, THEN conjunct2, THEN conjunct2, THEN conjunct2, THEN conjunct2, THEN mp, OF hi]
  have ed: "snd (snd (LoadRemoteFile ?P env_offline rf_example (?s, [])))
      = Some (Errorf ''failed to update remote file: failed to download file: connection refused''
               (Errorf ''failed to download file: connection refused'' (ErrorNew ''connection refused'')))"
    by (simp add: dom_defs ex_defs Let_def)
  have ei: "snd (snd (LoadFromRemoteFile ?P' env_offline rf_example (?s, netlist_NewList ?P')))
      = Some (Errorf ''failed to download file: connection refused'' (ErrorNew ''connection refused''))"
    by (simp add: ip_set_defs parse_defs ex_defs Let_def)
  have u: "URL rf_example = ''https://example.org/list.txt''"
    by (simp add: rf_example_def)
  from build_d have c1: "fst (NewDomainSet ?P env_offline no_plugins ?args ?rt)
      = Inl (Errorf
          ''failed to load remote file https://example.org/list.txt: failed to update remote file: failed to download file: connection refused''
          (Errorf ''failed to update remote file: failed to download file: connection refused''
             (Errorf ''failed to download file: connection refused'' (ErrorNew ''connection refused''))))"
    unfolding ed u by auto
  from build_i have c2: "fst (NewIPSet no_parseIPv6 ?P' env_offline no_plugins ?args' ?rt')
      = Inl (Errorf
          ''failed to load remote file https://example.org/list.txt: failed to download file: connection refused''
          (Errorf ''failed to download file: connection refused'' (ErrorNew ''connection refused'')))"
    unfolding ei u by auto
  show ?thesis
    using ex ne d r1 [unfolded e1] r2 [unfolded e2] f bad [THEN conjunct1] bad [THEN conjunct2, THEN conjunct1]
      c1 c2
    by (intro conjI)
qed

section \<open>Refresh ticks that fail\<close>

text \<open>
  C5. In every refresh tick, of the IP set and of the domain set alike, if the
  download fails or the load of the downloaded file fails, the heap (and with it the matcher
  every reader reaches through the set's pointer) and the goroutines are as before the
  tick; conversely the heap changes only when download and load both succeed. The tick
  returns the process only: there is no error value it could hand to a caller.
\<close>

theorem C5_failed_tick_keeps_live_matcher:
  "((snd (downloadFile E (URL rf) (Path rf) (rt_os rt)) \<noteq> None
      \<or> snd (LoadFromFile P (fst (downloadFile E (URL rf) (Path rf) (rt_os rt))) (Path rf) (netlist_NewList P)) \<noteq> None)
     \<longrightarrow> rt_heap (ip_updateRemoteFile_tick P E rf a rt) = rt_heap rt
         \<and> rt_goroutines (ip_updateRemoteFile_tick P E rf a rt) = rt_goroutines rt
         \<and> GetIPMatcher P (ip_updateRemoteFile_tick P E rf a rt) mg = GetIPMatcher P rt mg)
   \<and> (rt_heap (ip_updateRemoteFile_tick P E rf a rt) \<noteq> rt_heap rt
     \<longrightarrow> snd (downloadFile E (URL rf) (Path rf) (rt_os rt)) = None
         \<and> snd (LoadFromFile P (fst (downloadFile E (URL rf) (Path rf) (rt_os rt))) (Path rf) (netlist_NewList P)) = None)
   \<and> ((snd (downloadFile E (URL rf) (Path rf) (rt_os rt')) \<noteq> None
      \<or> snd (LoadFile P' (fst (downloadFile E (URL rf) (Path rf) (rt_os rt'))) (Path rf) (domain_NewDomainMixMatcher P')) \<noteq> None)
     \<longrightarrow> rt_heap (domain_updateRemoteFile_tick P' E rf a rt') = rt_heap rt'
         \<and> rt_goroutines (domain_updateRemoteFile_tick P' E rf a rt') = rt_goroutines rt')
   \<and> (rt_heap (domain_updateRemoteFile_tick P' E rf a rt') \<noteq> rt_heap rt'
     \<longrightarrow> snd (downloadFile E (URL rf) (Path rf) (rt_os rt')) = None
         \<and> snd (LoadFile P' (fst (downloadFile E (URL rf) (Path rf) (rt_os rt'))) (Path rf) (domain_NewDomainMixMatcher P')) = None)"
proof (intro conjI impI)
  assume f: "snd (downloadFile E (URL rf) (Path rf) (rt_os rt)) \<noteq> None
      \<or> snd (LoadFromFile P (fst (downloadFile E (URL rf) (Path rf) (rt_os rt))) (Path rf) (netlist_NewList P)) \<noteq> None"
  show "rt_heap (ip_updateRemoteFile_tick P E rf a rt) = rt_heap rt"
    by (simp add: ip_tick_failed [OF f])
  show "rt_goroutines (ip_updateRemoteFile_tick P E rf a rt) = rt_goroutines rt"
    by (simp add: ip_tick_failed [OF f])
  show "GetIPMatcher P (ip_updateRemoteFile_tick P E rf a rt) mg = GetIPMatcher P rt mg"
    by (simp add: ip_tick_failed [OF f] GetIPMatcher_def)
next
  assume c: "rt_heap (ip_updateRemoteFile_tick P E rf a rt) \<noteq> rt_heap rt"
  show "snd (downloadFile E (URL rf) (Path rf) (rt_os rt)) = None"
  proof (rule ccontr)
    assume "snd (downloadFile E (URL rf) (Path rf) (rt_os rt)) \<noteq> None"
    then have "ip_updateRemoteFile_tick P E rf a rt = rt\<lparr>rt_os := fst (downloadFile E (URL rf) (Path rf) (rt_os rt))\<rparr>"
      by (intro ip_tick_failed disjI1)
    with c show False by simp
  qed
  show "snd (LoadFromFile P (fst (downloadFile E (URL rf) (Path rf) (rt_os rt))) (Path rf) (netlist_NewList P)) = None"
  proof (rule ccontr)
    assume "snd (LoadFromFile P (fst (downloadFile E (URL rf) (Path rf) (rt_os rt))) (Path rf) (netlist_NewList P)) \<noteq> None"
    then have "ip_updateRemoteFile_tick P E rf a rt = rt\<lparr>rt_os := fst (downloadFile E (URL rf) (Path rf) (rt_os rt))\<rparr>"
      by (intro ip_tick_failed disjI2)
    with c show False by simp
  qed
next
  assume f: "snd (downloadFile E (URL rf) (Path rf) (rt_os rt')) \<noteq> None
      \<or> snd (LoadFile P' (fst (downloadFile E (URL rf) (Path rf) (rt_os rt'))) (Path rf) (domain_NewDomainMixMatcher P')) \<noteq> None"
  show "rt_heap (domain_updateRemoteFile_tick P' E rf a rt') = rt_heap rt'"
    by (simp add: domain_tick_failed [OF f])
  show "rt_goroutines (domain_updateRemoteFile_tick P' E rf a rt') = rt_goroutines rt'"
    by (simp add: domain_tick_failed [OF f])
next
  assume c: "rt_heap (domain_updateRemoteFile_tick P' E rf a rt') \<noteq> rt_heap rt'"
  show "snd (downloadFile E (URL rf) (Path rf) (rt_os rt')) = None"
  proof (rule ccontr)
    assume "snd (downloadFile E (URL rf) (Path rf) (rt_os rt')) \<noteq> None"
    then have "domain_updateRemoteFile_tick P' E rf a rt' = rt'\<lparr>rt_os := fst (downloadFile E (URL rf) (Path rf) (rt_os rt'))\<rparr>"
      by (intro domain_tick_failed disjI1)
    with c show False by simp
  qed
  show "snd (LoadFile P' (fst (downloadFile E (URL rf) (Path rf) (rt_os rt'))) (Path rf) (domain_NewDomainMixMatcher P')) = None"
  proof (rule ccontr)
    assume "snd (LoadFile P' (fst (downloadFile E (URL rf) (Path rf) (rt_os rt'))) (Path rf) (domain_NewDomainMixMatcher P')) \<noteq> None"
    then have "domain_updateRemoteFile_tick P' E rf a rt' = rt'\<lparr>rt_os := fst (downloadFile E (URL rf) (Path rf) (rt_os rt'))\<rparr>"
      by (intro domain_tick_failed disjI2)
    with c show False by simp
  qed
qed

theorem C5_failed_tick_witness:
  "snd (downloadFile env_offline (URL rf_example) (Path rf_example) (os_with ''cache/list.txt'' ''198.51.100.0/24'')) \<noteq> None
   \<and> rt_heap (ip_updateRemoteFile_tick (netlist_spec no_parseIPv6) env_offline rf_example 0
        \<lparr>rt_os = os_with ''cache/list.txt'' ''198.51.100.0/24'',
         rt_heap = [\<lparr>List_e = [\<lparr>Prefix_Addr = Addr4 0xC6336400, Prefix_Bits = 24\<rparr>], List_sorted = True\<rparr>],
         rt_goroutines = [(rf_example, 0)]\<rparr>)
      = [\<lparr>List_e = [\<lparr>Prefix_Addr = Addr4 0xC6336400, Prefix_Bits = 24\<rparr>], List_sorted = True\<rparr>]
   \<and> snd (LoadFile (domain_spec parse_exact admits_exact)
            (fst (downloadFile (env_serving ''bad rule'' ''bad rule'') (URL rf_example) (Path rf_example)
                    (os_with ''cache/list.txt'' ''example.org'')))
            (Path rf_example) (domain_NewDomainMixMatcher (domain_spec parse_exact admits_exact))) \<noteq> None
   \<and> rt_heap (domain_updateRemoteFile_tick (domain_spec parse_exact admits_exact)
        (env_serving ''bad rule'' ''bad rule'') rf_example 0
        \<lparr>rt_os = os_with ''cache/list.txt'' ''example.org'', rt_heap = [[''example.org'']],
         rt_goroutines = [(rf_example, 0)]\<rparr>)
      = [[''example.org'']]"
proof -
  let ?rt = "\<lparr>rt_os = os_with ''cache/list.txt'' ''198.51.100.0/24'',
         rt_heap = [\<lparr>List_e = [\<lparr>Prefix_Addr = Addr4 0xC6336400, Prefix_Bits = 24\<rparr>], List_sorted = True\<rparr>],
         rt_goroutines = [(rf_example, 0)]\<rparr>"
  let ?rt' = "\<lparr>rt_os = os_with ''cache/list.txt'' ''example.org'', rt_heap = [[''example.org'']],
         rt_goroutines = [(rf_example, 0)]\<rparr>"
  have h1: "snd (downloadFile env_offline (URL rf_example) (Path rf_example)
                (os_with ''cache/list.txt'' ''198.51.100.0/24'')) \<noteq> None"
    by (simp add: downloadFile_def ex_defs)
  have h2: "snd (LoadFile (domain_spec parse_exact admits_exact)
            (fst (downloadFile (env_serving ''bad rule'' ''bad rule'') (URL rf_example) (Path rf_example)
                    (os_with ''cache/list.txt'' ''example.org'')))
            (Path rf_example) (domain_NewDomainMixMatcher (domain_spec parse_exact admits_exact))) \<noteq> None"
    by (simp add: dom_defs ex_defs)
  note c = C5_failed_tick_keeps_live_matcher [where E = env_offline and rf = rf_example and rt = ?rt and P = "netlist_spec no_parseIPv6"
      and a = 0 and mg = "[Pointer 0]"]
  note c' = C5_failed_tick_keeps_live_matcher [where E = "env_serving ''bad rule'' ''bad rule''" and rf = rf_example and rt' = ?rt'
      and P' = "domain_spec parse_exact admits_exact" and a = 0]
  have r1: "rt_heap (ip_updateRemoteFile_tick (netlist_spec no_parseIPv6) env_offline rf_example 0 ?rt)
      = [\<lparr>List_e = [\<lparr>Prefix_Addr = Addr4 0xC6336400, Prefix_Bits = 24\<rparr>], List_sorted = True\<rparr>]"
    using c [THEN conjunct1] h1 by simp
  have r2: "rt_heap (domain_updateRemoteFile_tick (domain_spec parse_exact admits_exact)
        (env_serving ''bad rule'' ''bad rule'') rf_example 0 ?rt') = [[''example.org'']]"
    using c' [THEN conjunct2, THEN conjunct2, THEN conjunct1] h2 by simp
  from h1 r1 h2 r2 show ?thesis
    by (intro conjI)
qed

text \<open>
  C10. In a tick whose download succeeds with the body \<open>body\<close> and whose load of
  the downloaded file fails, the local file holds \<open>body\<close> after the tick while the heap,
  and so the matcher being served, is unchanged.
\<close>

theorem C10_abandoned_tick_leaves_new_file:
  "(snd (downloadFile E (URL rf) (Path rf) (rt_os rt)) = None
      \<and> http_Get E (downloads (rt_os rt)) (URL rf) = Response code status body
      \<and> snd (LoadFromFile P (fst (downloadFile E (URL rf) (Path rf) (rt_os rt))) (Path rf) (netlist_NewList P)) \<noteq> None
     \<longrightarrow> files (rt_os (ip_updateRemoteFile_tick P E rf a rt)) (Path rf) = Some body
         \<and> rt_heap (ip_updateRemoteFile_tick P E rf a rt) = rt_heap rt)
   \<and> (snd (downloadFile E (URL rf) (Path rf) (rt_os rt')) = None
      \<and> http_Get E (downloads (rt_os rt')) (URL rf) = Response code status body
      \<and> snd (LoadFile P' (fst (downloadFile E (URL rf) (Path rf) (rt_os rt'))) (Path rf) (domain_NewDomainMixMatcher P')) \<noteq> None
     \<longrightarrow> files (rt_os (domain_updateRemoteFile_tick P' E rf a rt')) (Path rf) = Some body
         \<and> rt_heap (domain_updateRemoteFile_tick P' E rf a rt') = rt_heap rt')"
proof (intro conjI impI)
  assume h: "snd (downloadFile E (URL rf) (Path rf) (rt_os rt)) = None
      \<and> http_Get E (downloads (rt_os rt)) (URL rf) = Response code status body
      \<and> snd (LoadFromFile P (fst (downloadFile E (URL rf) (Path rf) (rt_os rt))) (Path rf) (netlist_NewList P)) \<noteq> None"
  then have t: "ip_updateRemoteFile_tick P E rf a rt = rt\<lparr>rt_os := fst (downloadFile E (URL rf) (Path rf) (rt_os rt))\<rparr>"
    by (intro ip_tick_failed disjI2) simp
  show "files (rt_os (ip_updateRemoteFile_tick P E rf a rt)) (Path rf) = Some body"
    using h by (simp add: t downloadFile_ok_body)
  show "rt_heap (ip_updateRemoteFile_tick P E rf a rt) = rt_heap rt"
    by (simp add: t)
next
  assume h: "snd (downloadFile E (URL rf) (Path rf) (rt_os rt')) = None
      \<and> http_Get E (downloads (rt_os rt')) (URL rf) = Response code status body
      \<and> snd (LoadFile P' (fst (downloadFile E (URL rf) (Path rf) (rt_os rt'))) (Path rf) (domain_NewDomainMixMatcher P')) \<noteq> None"
  then have t: "domain_updateRemoteFile_tick P' E rf a rt' = rt'\<lparr>rt_os := fst (downloadFile E (URL rf) (Path rf) (rt_os rt'))\<rparr>"
    by (intro domain_tick_failed disjI2) simp
  show "files (rt_os (domain_updateRemoteFile_tick P' E rf a rt')) (Path rf) = Some body"
    using h by (simp add: t downloadFile_ok_body)
  show "rt_heap (domain_updateRemoteFile_tick P' E rf a rt') = rt_heap rt'"
    by (simp add: t)
qed

theorem C10_abandoned_tick_witness:
  "snd (downloadFile (env_serving ''not an address'' ''not an address'') (URL rf_example) (Path rf_example)
          (os_with ''cache/list.txt'' ''198.51.100.0/24'')) = None
   \<and> snd (LoadFromFile (netlist_spec no_parseIPv6)
            (fst (downloadFile (env_serving ''not an address'' ''not an address'') (URL rf_example) (Path rf_example)
                    (os_with ''cache/list.txt'' ''198.51.100.0/24'')))
            (Path rf_example) (netlist_NewList (netlist_spec no_parseIPv6))) \<noteq> None
   \<and> files (rt_os (ip_updateRemoteFile_tick (netlist_spec no_parseIPv6)
        (env_serving ''not an address'' ''not an address'') rf_example 0
        \<lparr>rt_os = os_with ''cache/list.txt'' ''198.51.100.0/24'',
         rt_heap = [\<lparr>List_e = [\<lparr>Prefix_Addr = Addr4 0xC6336400, Prefix_Bits = 24\<rparr>], List_sorted = True\<rparr>],
         rt_goroutines = [(rf_example, 0)]\<rparr>)) ''cache/list.txt'' = Some ''not an address''
   \<and> rt_heap (ip_updateRemoteFile_tick (netlist_spec no_parseIPv6)
        (env_serving ''not an address'' ''not an address'') rf_example 0
        \<lparr>rt_os = os_with ''cache/list.txt'' ''198.51.100.0/24'',
         rt_heap = [\<lparr>List_e = [\<lparr>Prefix_Addr = Addr4 0xC6336400, Prefix_Bits = 24\<rparr>], List_sorted = True\<rparr>],
         rt_goroutines = [(rf_example, 0)]\<rparr>)
      = [\<lparr>List_e = [\<lparr>Prefix_Addr = Addr4 0xC6336400, Prefix_Bits = 24\<rparr>], List_sorted = True\<rparr>]
   \<and> files (rt_os (domain_updateRemoteFile_tick (domain_spec parse_exact admits_exact)
        (env_serving ''bad rule'' ''bad rule'') rf_example 0
        \<lparr>rt_os = os_with ''cache/list.txt'' ''example.org'', rt_heap = [[''example.org'']],
         rt_goroutines = [(rf_example, 0)]\<rparr>)) ''cache/list.txt'' = Some ''bad rule''
   \<and> rt_heap (domain_updateRemoteFile_tick (domain_spec parse_exact admits_exact)
        (env_serving ''bad rule'' ''bad rule'') rf_example 0
        \<lparr>rt_os = os_with ''cache/list.txt'' ''example.org'', rt_heap = [[''example.org'']],
         rt_goroutines = [(rf_example, 0)]\<rparr>)
      = [[''example.org'']]"
proof -
  let ?E = "env_serving ''not an address'' ''not an address''"
  let ?E' = "env_serving ''bad rule'' ''bad rule''"
  let ?rt = "\<lparr>rt_os = os_with ''cache/list.txt'' ''198.51.100.0/24'',
         rt_heap = [\<lparr>List_e = [\<lparr>Prefix_Addr = Addr4 0xC6336400, Prefix_Bits = 24\<rparr>], List_sorted = True\<rparr>],
         rt_goroutines = [(rf_example, 0)]\<rparr>"
  let ?rt' = "\<lparr>rt_os = os_with ''cache/list.txt'' ''example.org'', rt_heap = [[''example.org'']],
         rt_goroutines = [(rf_example, 0)]\<rparr>"
  have h1: "snd (downloadFile ?E (URL rf_example) (Path rf_example)
          (os_with ''cache/list.txt'' ''198.51.100.0/24'')) = None"
    by (simp add: downloadFile_def ex_defs)
  have h2: "http_Get ?E (downloads (rt_os ?rt)) (URL rf_example) = Response 200 ''200 OK'' ''not an address''"
    by (simp add: ex_defs)
  have h3: "snd (LoadFromFile (netlist_spec no_parseIPv6)
            (fst (downloadFile ?E (URL rf_example) (Path rf_example)
                    (os_with ''cache/list.txt'' ''198.51.100.0/24'')))
            (Path rf_example) (netlist_NewList (netlist_spec no_parseIPv6))) \<noteq> None"
    by (simp add: ip_set_defs parse_defs ex_defs)
  have g1: "snd (downloadFile ?E' (URL rf_example) (Path rf_example)
          (os_with ''cache/list.txt'' ''example.org'')) = None"
    by (simp add: downloadFile_def ex_defs)
  have g2: "http_Get ?E' (downloads (rt_os ?rt')) (URL rf_example) = Response 200 ''200 OK'' ''bad rule''"
    by (simp add: ex_defs)
  have g3: "snd (LoadFile (domain_spec parse_exact admits_exact)
            (fst (downloadFile ?E' (URL rf_example) (Path rf_example)
                    (os_with ''cache/list.txt'' ''example.org'')))
            (Path rf_example) (domain_NewDomainMixMatcher (domain_spec parse_exact admits_exact))) \<noteq> None"
    by (simp add: dom_defs ex_defs)
  have p: "Path rf_example = ''cache/list.txt''"
    by (simp add: ex_defs)
  note c = C10_abandoned_tick_leaves_new_file [where E = ?E and rf = rf_example and rt = ?rt and P = "netlist_spec no_parseIPv6"
      and a = 0 and code = 200 and status = "''200 OK''" and body = "''not an address''", THEN conjunct1]
  note c' = C10_abandoned_tick_leaves_new_file [where E = ?E' and rf = rf_example and rt' = ?rt' and P' = "domain_spec parse_exact admits_exact"
      and a = 0 and code = 200 and status = "''200 OK''" and body = "''bad rule''", THEN conjunct2]
  have r: "files (rt_os (ip_updateRemoteFile_tick (netlist_spec no_parseIPv6) ?E rf_example 0 ?rt))
             ''cache/list.txt'' = Some ''not an address''
         \<and> rt_heap (ip_updateRemoteFile_tick (netlist_spec no_parseIPv6) ?E rf_example 0 ?rt)
             = [\<lparr>List_e = [\<lparr>Prefix_Addr = Addr4 0xC6336400, Prefix_Bits = 24\<rparr>], List_sorted = True\<rparr>]"
    using c h1 h2 h3 by (simp add: p)
  have r': "files (rt_os (domain_updateRemoteFile_tick (domain_spec parse_exact admits_exact) ?E' rf_example 0 ?rt'))
             ''cache/list.txt'' = Some ''bad rule''
         \<and> rt_heap (domain_updateRemoteFile_tick (domain_spec parse_exact admits_exact) ?E' rf_example 0 ?rt')
             = [[''example.org'']]"
    using c' g1 g2 g3 by (simp add: p)
  from h1 h3 r r' show ?thesis
    by (intro conjI) (rule conjunct1, assumption | rule conjunct2, assumption | assumption)+
qed

section \<open>Invalid inline expressions\<close>

text \<open>
  C7. If loading the inline expressions reaches position \<open>i\<close> and the expression
  there is rejected, construction returns an error and no set; the error wraps the cause and
  its message is \<^verbatim>\<open>failed to load expression #i exp, cause\<close> (\<^verbatim>\<open>invalid ip #i s, cause\<close> for
  the IP set), so it contains the index and the text of the expression. For the IP set,
  an invalid address at any position makes construction fail. No goroutine is started.
\<close>

theorem C7_invalid_expression_error:
  "(i < length (Exps args)
      \<and> LoadExps P (take i (Exps args)) (domain_NewDomainMixMatcher P) = (mi, None)
      \<and> domain_Add P mi (Exps args ! i) = (m', Some cause)
    \<longrightarrow> fst (NewDomainSet P E GetPlugin args rt)
          = Inl (Errorf (''failed to load expression #'' @ itoa i @ '' '' @ Exps args ! i @ '', '' @ Error cause) cause)
        \<and> rt_goroutines (snd (NewDomainSet P E GetPlugin args rt)) = rt_goroutines rt
        \<and> sublist (itoa i) (''failed to load expression #'' @ itoa i @ '' '' @ Exps args ! i @ '', '' @ Error cause)
        \<and> sublist (Exps args ! i) (''failed to load expression #'' @ itoa i @ '' '' @ Exps args ! i @ '', '' @ Error cause))
   \<and> (j < length (IPs args') \<and> parseNetipPrefix parse_six (IPs args' ! j) = Inl cause'
    \<longrightarrow> (\<exists>e. fst (NewIPSet parse_six P' E GetPlugin' args' rt') = Inl e)
        \<and> rt_goroutines (snd (NewIPSet parse_six P' E GetPlugin' args' rt')) = rt_goroutines rt'
        \<and> ((\<forall>k<j. \<exists>p. parseNetipPrefix parse_six (IPs args' ! k) = Inr p)
            \<longrightarrow> fst (NewIPSet parse_six P' E GetPlugin' args' rt')
                  = Inl (Errorf (''invalid ip #'' @ itoa j @ '' '' @ IPs args' ! j @ '', '' @ Error cause') cause')
                \<and> sublist (itoa j) (''invalid ip #'' @ itoa j @ '' '' @ IPs args' ! j @ '', '' @ Error cause')
                \<and> sublist (IPs args' ! j) (''invalid ip #'' @ itoa j @ '' '' @ IPs args' ! j @ '', '' @ Error cause')))"
proof (intro conjI impI)
  assume h: "i < length (Exps args)
      \<and> LoadExps P (take i (Exps args)) (domain_NewDomainMixMatcher P) = (mi, None)
      \<and> domain_Add P mi (Exps args ! i) = (m', Some cause)"
  then have "LoadExps P (Exps args) (domain_NewDomainMixMatcher P)
      = (m', Some (Errorf (''failed to load expression #'' @ itoa i @ '' '' @ Exps args ! i @ '', '' @ Error cause) cause))"
    using LoadExps_from_first_bad [of P 0 i "Exps args" "domain_NewDomainMixMatcher P" mi m' cause]
    by (simp add: LoadExps_def)
  note n = NewDomainSet_exps_error [OF this, of E GetPlugin rt]
  show "fst (NewDomainSet P E GetPlugin args rt)
          = Inl (Errorf (''failed to load expression #'' @ itoa i @ '' '' @ Exps args ! i @ '', '' @ Error cause) cause)"
    by (simp add: n)
  show "rt_goroutines (snd (NewDomainSet P E GetPlugin args rt)) = rt_goroutines rt"
    by (simp add: n)
  show "sublist (itoa i) (''failed to load expression #'' @ itoa i @ '' '' @ Exps args ! i @ '', '' @ Error cause)"
    by (rule sublist_mid)
  have "sublist (Exps args ! i) ((''failed to load expression #'' @ itoa i @ '' '') @ Exps args ! i @ ('', '' @ Error cause))"
    by (rule sublist_mid)
  then show "sublist (Exps args ! i) (''failed to load expression #'' @ itoa i @ '' '' @ Exps args ! i @ '', '' @ Error cause)"
    by (simp only: append_assoc)
next
  assume h: "j < length (IPs args') \<and> parseNetipPrefix parse_six (IPs args' ! j) = Inl cause'"
  then have "snd (LoadFromIPs parse_six P' (IPs args') (netlist_NewList P')) \<noteq> None"
    using LoadFromIPs_from_some_bad [of j "IPs args'" parse_six cause' P' 0 "netlist_NewList P'"]
    by (simp add: LoadFromIPs_def)
  then obtain e where e: "snd (LoadFromIPs parse_six P' (IPs args') (netlist_NewList P')) = Some e"
    by blast
  note n = NewIPSet_ips_error [OF e, of E GetPlugin' rt']
  show "\<exists>e. fst (NewIPSet parse_six P' E GetPlugin' args' rt') = Inl e"
    by (simp add: n)
  show "rt_goroutines (snd (NewIPSet parse_six P' E GetPlugin' args' rt')) = rt_goroutines rt'"
    by (simp add: n)
next
  assume h: "j < length (IPs args') \<and> parseNetipPrefix parse_six (IPs args' ! j) = Inl cause'"
    and f: "\<forall>k<j. \<exists>p. parseNetipPrefix parse_six (IPs args' ! k) = Inr p"
  have e: "snd (LoadFromIPs parse_six P' (IPs args') (netlist_NewList P'))
      = Some (Errorf (''invalid ip #'' @ itoa j @ '' '' @ IPs args' ! j @ '', '' @ Error cause') cause')"
    using h f LoadFromIPs_from_first_bad [of j "IPs args'" parse_six cause' P' 0 "netlist_NewList P'"]
    by (simp add: LoadFromIPs_def)
  note n = NewIPSet_ips_error [OF e, of E GetPlugin' rt']
  show "fst (NewIPSet parse_six P' E GetPlugin' args' rt')
                  = Inl (Errorf (''invalid ip #'' @ itoa j @ '' '' @ IPs args' ! j @ '', '' @ Error cause') cause')"
    by (simp add: n)
next
  show "sublist (itoa j) (''invalid ip #'' @ itoa j @ '' '' @ IPs args' ! j @ '', '' @ Error cause')"
    by (rule sublist_mid)
next
  have "sublist (IPs args' ! j) ((''invalid ip #'' @ itoa j @ '' '') @ IPs args' ! j @ ('', '' @ Error cause'))"
    by (rule sublist_mid)
  then show "sublist (IPs args' ! j) (''invalid ip #'' @ itoa j @ '' '' @ IPs args' ! j @ '', '' @ Error cause')"
    by (simp only: append_assoc)
qed

theorem C7_invalid_expression_witness:
  "LoadExps (domain_spec parse_exact admits_exact) (take 1 [''example.org'', ''bad rule''])
       (domain_NewDomainMixMatcher (domain_spec parse_exact admits_exact)) = ([''example.org''], None)
   \<and> domain_Add (domain_spec parse_exact admits_exact) [''example.org''] ''bad rule''
       = ([''example.org''], Some (ErrorNew ''invalid domain''))
   \<and> fst (NewDomainSet (domain_spec parse_exact admits_exact) env_offline no_plugins
            (domain_args_example [''example.org'', ''bad rule''] []) (rt_start os_empty))
       = Inl (Errorf ''failed to load expression #1 bad rule, invalid domain'' (ErrorNew ''invalid domain''))
   \<and> parseNetipPrefix no_parseIPv6 ''198.51.100.300'' = Inl (ErrorNew ''IPv4 field has value >255'')
   \<and> fst (NewIPSet no_parseIPv6 (netlist_spec no_parseIPv6) env_offline no_plugins
            (ip_args_example [''198.51.100.7'', ''198.51.100.300''] []) (rt_start os_empty))
       = Inl (Errorf ''invalid ip #1 198.51.100.300, IPv4 field has value >255''
                (ErrorNew ''IPv4 field has value >255''))"
proof -
  let ?P = "domain_spec parse_exact admits_exact"
  let ?args = "domain_args_example [''example.org'', ''bad rule''] []"
  let ?args' = "ip_args_example [''198.51.100.7'', ''198.51.100.300''] []"
  have e: "Exps ?args = [''example.org'', ''bad rule'']" "IPs ?args' = [''198.51.100.7'', ''198.51.100.300'']"
    by (simp_all add: ex_defs)
  have h1: "LoadExps ?P (take 1 [''example.org'', ''bad rule'']) (domain_NewDomainMixMatcher ?P)
       = ([''example.org''], None)"
    by (simp add: dom_defs)
  have h2: "domain_Add ?P [''example.org''] ''bad rule'' = ([''example.org''], Some (ErrorNew ''invalid domain''))"
    by (simp add: dom_defs)
  have h3: "parseNetipPrefix no_parseIPv6 ''198.51.100.300'' = Inl (ErrorNew ''IPv4 field has value >255'')"
    by (simp add: parse_defs)
  have h4: "\<forall>k<1. \<exists>p. parseNetipPrefix no_parseIPv6 ([''198.51.100.7'', ''198.51.100.300''] ! k) = Inr p"
    by (simp add: parse_defs)
  note c = C7_invalid_expression_error [where i = 1 and args = ?args and P = ?P and mi = "[''example.org'']"
      and m' = "[''example.org'']" and cause = "ErrorNew ''invalid domain''"
      and E = env_offline and GetPlugin = no_plugins and rt = "rt_start os_empty"
      and j = 1 and args' = ?args' and parse_six = no_parseIPv6
      and cause' = "ErrorNew ''IPv4 field has value >255''" and P' = "netlist_spec no_parseIPv6"
      and GetPlugin' = no_plugins and rt' = "rt_start os_empty"]
  have d: "fst (NewDomainSet ?P env_offline no_plugins ?args (rt_start os_empty))
       = Inl (Errorf ''failed to load expression #1 bad rule, invalid domain'' (ErrorNew ''invalid domain''))"
    using c [THEN conjunct1] h1 h2 by (simp add: e itoa.simps digit_char_def)
  have i: "fst (NewIPSet no_parseIPv6 (netlist_spec no_parseIPv6) env_offline no_plugins ?args' (rt_start os_empty))
       = Inl (Errorf ''invalid ip #1 198.51.100.300, IPv4 field has value >255''
                (ErrorNew ''IPv4 field has value >255''))"
    using c [THEN conjunct2] h3 h4 by (simp add: e itoa.simps digit_char_def)
  from h1 h2 h3 d i show ?thesis
    by (intro conjI)
qed

section \<open>Parsing addresses and prefixes\<close>

lemma Addr_Prefix_BitLen: "Addr_Prefix addr (BitLen addr) = Inr (PrefixFrom addr (BitLen addr))"
  by (cases addr) (simp_all add: PrefixFrom_def)

lemma parseNetipPrefix_bare:
  assumes "CHR ''/'' \<notin> set s" "ParseAddr parse_six s = Inr addr"
  shows "parseNetipPrefix parse_six s = Inr (PrefixFrom addr (BitLen addr))"
  using assms by (simp add: parseNetipPrefix_def Addr_Prefix_BitLen)

lemma parse_host: "parseNetipPrefix parse_six ''198.51.100.7'' = Inr \<lparr>Prefix_Addr = Addr4 0xC6336407, Prefix_Bits = 32\<rparr>"
  by (simp add: parse_defs)

lemma parse_host32: "parseNetipPrefix parse_six ''198.51.100.7/32'' = Inr \<lparr>Prefix_Addr = Addr4 0xC6336407, Prefix_Bits = 32\<rparr>"
  by (simp add: parse_defs)

lemma parse_net24: "parseNetipPrefix parse_six ''198.51.100.0/24'' = Inr \<lparr>Prefix_Addr = Addr4 0xC6336400, Prefix_Bits = 24\<rparr>"
  by (simp add: parse_defs)

lemma NewIPSet_net24:
  "NewIPSet parse_six (netlist_spec parse_six) E GetPlugin (ip_args_example [''198.51.100.0/24''] []) (rt_start s)
     = (Inr [Pointer 0],
        \<lparr>rt_os = s,
         rt_heap = [\<lparr>List_e = [\<lparr>Prefix_Addr = Addr4 0xC6336400, Prefix_Bits = 24\<rparr>], List_sorted = True\<rparr>],
         rt_goroutines = []\<rparr>)"
  by (simp add: NewIPSet_def LoadFromIPsAndFiles_def LoadFromIPs_def LoadFromFiles_def parse_net24
      netlist_spec_def ip_args_example_def rt_start_def Let_def)

text \<open>
  C8. A string without \<^verbatim>\<open>/\<close> that parses as an address yields the prefix of that
  address with all its bits (32 or 128). So \<^verbatim>\<open>198.51.100.7\<close> and \<^verbatim>\<open>198.51.100.7/32\<close>
  parse to the same prefix, and loading either, or building the set from either, gives
  the same result whatever the list package does. With the list of the spec, a set built
  from \<^verbatim>\<open>198.51.100.0/24\<close> matches 198.51.100.7 and does not match 198.51.101.1.
\<close>

theorem C8_bare_address_is_host_prefix:
  "(CHR ''/'' \<notin> set s \<and> ParseAddr parse_six s = Inr addr
      \<longrightarrow> parseNetipPrefix parse_six s = Inr (PrefixFrom addr (BitLen addr)))
   \<and> parseNetipPrefix parse_six ''198.51.100.7'' = Inr \<lparr>Prefix_Addr = Addr4 0xC6336407, Prefix_Bits = 32\<rparr>
   \<and> parseNetipPrefix parse_six ''198.51.100.7/32'' = parseNetipPrefix parse_six ''198.51.100.7''
   \<and> LoadFromIPs parse_six P [''198.51.100.7/32''] l = LoadFromIPs parse_six P [''198.51.100.7''] l
   \<and> NewIPSet parse_six P E GetPlugin (ip_args_example [''198.51.100.7/32''] rfs) rt
       = NewIPSet parse_six P E GetPlugin (ip_args_example [''198.51.100.7''] rfs) rt
   \<and> ParseAddr parse_six ''198.51.100.7'' = Inr (Addr4 0xC6336407)
   \<and> ParseAddr parse_six ''198.51.101.1'' = Inr (Addr4 0xC6336501)
   \<and> fst (NewIPSet parse_six (netlist_spec parse_six) E GetPlugin (ip_args_example [''198.51.100.0/24''] []) (rt_start os))
       = Inr [Pointer 0]
   \<and> MatcherGroup_Match
        (GetIPMatcher (netlist_spec parse_six)
           (snd (NewIPSet parse_six (netlist_spec parse_six) E GetPlugin
                   (ip_args_example [''198.51.100.0/24''] []) (rt_start os)))
           [Pointer 0])
        (Addr4 0xC6336407)
   \<and> \<not> MatcherGroup_Match
        (GetIPMatcher (netlist_spec parse_six)
           (snd (NewIPSet parse_six (netlist_spec parse_six) E GetPlugin
                   (ip_args_example [''198.51.100.0/24''] []) (rt_start os)))
           [Pointer 0])
        (Addr4 0xC6336501)"
proof (intro conjI impI)
  assume "CHR ''/'' \<notin> set s \<and> ParseAddr parse_six s = Inr addr"
  then show "parseNetipPrefix parse_six s = Inr (PrefixFrom addr (BitLen addr))"
    by (simp add: parseNetipPrefix_bare)
next
  show "parseNetipPrefix parse_six ''198.51.100.7'' = Inr \<lparr>Prefix_Addr = Addr4 0xC6336407, Prefix_Bits = 32\<rparr>"
    by (rule parse_host)
  show e: "parseNetipPrefix parse_six ''198.51.100.7/32'' = parseNetipPrefix parse_six ''198.51.100.7''"
    by (simp only: parse_host parse_host32)
  show l: "LoadFromIPs parse_six P [''198.51.100.7/32''] l = LoadFromIPs parse_six P [''198.51.100.7''] l"
    by (simp add: LoadFromIPs_def parse_host parse_host32)
  show "NewIPSet parse_six P E GetPlugin (ip_args_example [''198.51.100.7/32''] rfs) rt
       = NewIPSet parse_six P E GetPlugin (ip_args_example [''198.51.100.7''] rfs) rt"
    by (simp add: NewIPSet_def LoadFromIPsAndFiles_def LoadFromIPs_def parse_host parse_host32 ip_args_example_def)
  show "ParseAddr parse_six ''198.51.100.7'' = Inr (Addr4 0xC6336407)"
    by (simp add: parse_defs)
  show "ParseAddr parse_six ''198.51.101.1'' = Inr (Addr4 0xC6336501)"
    by (simp add: parse_defs)
  show "fst (NewIPSet parse_six (netlist_spec parse_six) E GetPlugin (ip_args_example [''198.51.100.0/24''] []) (rt_start os))
       = Inr [Pointer 0]"
    by (simp add: NewIPSet_net24)
  show "MatcherGroup_Match
        (GetIPMatcher (netlist_spec parse_six)
           (snd (NewIPSet parse_six (netlist_spec parse_six) E GetPlugin
                   (ip_args_example [''198.51.100.0/24''] []) (rt_start os)))
           [Pointer 0])
        (Addr4 0xC6336407)"
    unfolding NewIPSet_net24 by (simp add: GetIPMatcher_def netlist_spec_def)
  show "\<not> MatcherGroup_Match
        (GetIPMatcher (netlist_spec parse_six)
           (snd (NewIPSet parse_six (netlist_spec parse_six) E GetPlugin
                   (ip_args_example [''198.51.100.0/24''] []) (rt_start os)))
           [Pointer 0])
        (Addr4 0xC6336501)"
    unfolding NewIPSet_net24 by (simp add: GetIPMatcher_def netlist_spec_def)
qed

theorem C8_bare_address_witness:
  "CHR ''/'' \<notin> set ''203.0.113.9''
   \<and> ParseAddr no_parseIPv6 ''203.0.113.9'' = Inr (Addr4 0xCB007109)
   \<and> parseNetipPrefix no_parseIPv6 ''203.0.113.9'' = Inr \<lparr>Prefix_Addr = Addr4 0xCB007109, Prefix_Bits = 32\<rparr>"
proof -
  have h1: "CHR ''/'' \<notin> set ''203.0.113.9''"
    by simp
  have h2: "ParseAddr no_parseIPv6 ''203.0.113.9'' = Inr (Addr4 0xCB007109)"
    by (simp add: parse_defs)
  from C8_bare_address_is_host_prefix [where s = "''203.0.113.9''" and parse_six = no_parseIPv6 and addr = "Addr4 0xCB007109", THEN conjunct1]
    h1 h2
  have "parseNetipPrefix no_parseIPv6 ''203.0.113.9'' = Inr (PrefixFrom (Addr4 0xCB007109) (BitLen (Addr4 0xCB007109)))"
    by blast
  then have "parseNetipPrefix no_parseIPv6 ''203.0.113.9'' = Inr \<lparr>Prefix_Addr = Addr4 0xCB007109, Prefix_Bits = 32\<rparr>"
    by (simp add: PrefixFrom_def)
  with h1 h2 show ?thesis
    by (intro conjI)
qed

section \<open>What a successful refresh tick does to the shared matcher\<close>

lemma ip_tick_in_place:
  "length (rt_heap (ip_updateRemoteFile_tick P E rf a rt)) = length (rt_heap rt)
   \<and> (\<forall>b. b \<noteq> a \<longrightarrow> rt_heap (ip_updateRemoteFile_tick P E rf a rt) ! b = rt_heap rt ! b)
   \<and> rt_goroutines (ip_updateRemoteFile_tick P E rf a rt) = rt_goroutines rt"
  by (simp add: ip_tick_cases)

lemma domain_tick_in_place:
  "length (rt_heap (domain_updateRemoteFile_tick P E rf a rt)) = length (rt_heap rt)
   \<and> (\<forall>b. b \<noteq> a \<longrightarrow> rt_heap (domain_updateRemoteFile_tick P E rf a rt) ! b = rt_heap rt ! b)
   \<and> rt_goroutines (domain_updateRemoteFile_tick P E rf a rt) = rt_goroutines rt"
  by (simp add: domain_tick_cases)

lemma build_remote_only:
  "NewIPSet no_parseIPv6 (netlist_spec no_parseIPv6) (env_serving ''198.51.100.0/24'' ''203.0.113.0/24'') no_plugins
    (ip_args_example [] [rf_example]) (rt_start os_empty)
   = (Inr [Pointer 0],
      \<lparr>rt_os = \<lparr>files = [''cache/list.txt'' \<mapsto> ''198.51.100.0/24''], downloads = 2\<rparr>,
       rt_heap = [\<lparr>List_e = [\<lparr>Prefix_Addr = Addr4 0xC6336400, Prefix_Bits = 24\<rparr>,
                             \<lparr>Prefix_Addr = Addr4 0xC6336400, Prefix_Bits = 24\<rparr>], List_sorted = True\<rparr>],
       rt_goroutines = [(rf_example, 0)]\<rparr>)"
  by (simp add: ex_defs parse_defs ip_set_defs Let_def)

lemma tick_remote_only:
  "ip_updateRemoteFile_tick (netlist_spec no_parseIPv6) (env_serving ''198.51.100.0/24'' ''203.0.113.0/24'')
      rf_example 0
      \<lparr>rt_os = \<lparr>files = [''cache/list.txt'' \<mapsto> ''198.51.100.0/24''], downloads = 2\<rparr>,
       rt_heap = [\<lparr>List_e = [\<lparr>Prefix_Addr = Addr4 0xC6336400, Prefix_Bits = 24\<rparr>,
                             \<lparr>Prefix_Addr = Addr4 0xC6336400, Prefix_Bits = 24\<rparr>], List_sorted = True\<rparr>],
       rt_goroutines = [(rf_example, 0)]\<rparr>
   = \<lparr>rt_os = \<lparr>files = [''cache/list.txt'' \<mapsto> ''203.0.113.0/24''], downloads = 3\<rparr>,
       rt_heap = [\<lparr>List_e = [\<lparr>Prefix_Addr = Addr4 0xCB007100, Prefix_Bits = 24\<rparr>], List_sorted = True\<rparr>],
       rt_goroutines = [(rf_example, 0)]\<rparr>"
  by (simp add: ex_defs parse_defs ip_set_defs Let_def)

text \<open>
  C1. A set is built from one remote file with a refresh interval of 60 seconds; the
  first two downloads serve \<^verbatim>\<open>198.51.100.0/24\<close>, the third serves \<^verbatim>\<open>203.0.113.0/24\<close>. The
  set's only component is the pointer to cell 0, which the goroutine holds too. The
  tick installs the new list by overwriting the contents of cell 0: the heap has the
  same single cell before and after, with different contents. No pointer is swapped.
\<close>

theorem C1_install_overwrites_shared_cell:
  "fst (NewIPSet no_parseIPv6 (netlist_spec no_parseIPv6) (env_serving ''198.51.100.0/24'' ''203.0.113.0/24'')
          no_plugins (ip_args_example [] [rf_example]) (rt_start os_empty))
     = Inr [Pointer 0]
   \<and> rt_goroutines (snd (NewIPSet no_parseIPv6 (netlist_spec no_parseIPv6)
          (env_serving ''198.51.100.0/24'' ''203.0.113.0/24'')
          no_plugins (ip_args_example [] [rf_example]) (rt_start os_empty)))
     = [(rf_example, 0)]
   \<and> rt_heap (snd (NewIPSet no_parseIPv6 (netlist_spec no_parseIPv6)
          (env_serving ''198.51.100.0/24'' ''203.0.113.0/24'')
          no_plugins (ip_args_example [] [rf_example]) (rt_start os_empty)))
     = [\<lparr>List_e = [\<lparr>Prefix_Addr = Addr4 0xC6336400, Prefix_Bits = 24\<rparr>,
                   \<lparr>Prefix_Addr = Addr4 0xC6336400, Prefix_Bits = 24\<rparr>], List_sorted = True\<rparr>]
   \<and> rt_heap (ip_updateRemoteFile_tick (netlist_spec no_parseIPv6)
          (env_serving ''198.51.100.0/24'' ''203.0.113.0/24'') rf_example 0
          (snd (NewIPSet no_parseIPv6 (netlist_spec no_parseIPv6)
             (env_serving ''198.51.100.0/24'' ''203.0.113.0/24'')
             no_plugins (ip_args_example [] [rf_example]) (rt_start os_empty))))
     = [\<lparr>List_e = [\<lparr>Prefix_Addr = Addr4 0xCB007100, Prefix_Bits = 24\<rparr>], List_sorted = True\<rparr>]"
  unfolding build_remote_only snd_conv fst_conv tick_remote_only
  by simp

lemma build_static_and_remote:
  "NewIPSet no_parseIPv6 (netlist_spec no_parseIPv6) (env_serving ''203.0.113.0/24'' ''203.0.113.0/24'') no_plugins
    (ip_args_example [''198.51.100.7''] [rf_example]) (rt_start os_empty)
   = (Inr [Pointer 0],
      \<lparr>rt_os = \<lparr>files = [''cache/list.txt'' \<mapsto> ''203.0.113.0/24''], downloads = 2\<rparr>,
       rt_heap = [\<lparr>List_e = [\<lparr>Prefix_Addr = Addr4 0xC6336407, Prefix_Bits = 32\<rparr>,
                             \<lparr>Prefix_Addr = Addr4 0xCB007100, Prefix_Bits = 24\<rparr>,
                             \<lparr>Prefix_Addr = Addr4 0xCB007100, Prefix_Bits = 24\<rparr>], List_sorted = True\<rparr>],
       rt_goroutines = [(rf_example, 0)]\<rparr>)"
  by (simp add: ex_defs parse_defs ip_set_defs Let_def)

lemma tick_static_and_remote:
  "ip_run_ticks (netlist_spec no_parseIPv6) (env_serving ''203.0.113.0/24'' ''203.0.113.0/24'') [0]
      \<lparr>rt_os = \<lparr>files = [''cache/list.txt'' \<mapsto> ''203.0.113.0/24''], downloads = 2\<rparr>,
       rt_heap = [\<lparr>List_e = [\<lparr>Prefix_Addr = Addr4 0xC6336407, Prefix_Bits = 32\<rparr>,
                             \<lparr>Prefix_Addr = Addr4 0xCB007100, Prefix_Bits = 24\<rparr>,
                             \<lparr>Prefix_Addr = Addr4 0xCB007100, Prefix_Bits = 24\<rparr>], List_sorted = True\<rparr>],
       rt_goroutines = [(rf_example, 0)]\<rparr>
   = \<lparr>rt_os = \<lparr>files = [''cache/list.txt'' \<mapsto> ''203.0.113.0/24''], downloads = 3\<rparr>,
       rt_heap = [\<lparr>List_e = [\<lparr>Prefix_Addr = Addr4 0xCB007100, Prefix_Bits = 24\<rparr>], List_sorted = True\<rparr>],
       rt_goroutines = [(rf_example, 0)]\<rparr>"
  by (simp add: ex_defs parse_defs ip_set_defs Let_def)

text \<open>
  C2. A set is built from the inline address \<^verbatim>\<open>198.51.100.7\<close> and one remote file serving
  \<^verbatim>\<open>203.0.113.0/24\<close>, with a refresh interval of 60 seconds. After construction the set
  matches 198.51.100.7. After one tick of the refresh goroutine, with the remote
  content unchanged, it does not: the tick has replaced the list that held the inline
  rule by a list holding the rules of the remote file only.
\<close>

theorem C2_refresh_drops_static_rules:
  "fst (NewIPSet no_parseIPv6 (netlist_spec no_parseIPv6) (env_serving ''203.0.113.0/24'' ''203.0.113.0/24'')
          no_plugins (ip_args_example [''198.51.100.7''] [rf_example]) (rt_start os_empty))
     = Inr [Pointer 0]
   \<and> rt_goroutines (snd (NewIPSet no_parseIPv6 (netlist_spec no_parseIPv6)
          (env_serving ''203.0.113.0/24'' ''203.0.113.0/24'')
          no_plugins (ip_args_example [''198.51.100.7''] [rf_example]) (rt_start os_empty)))
     = [(rf_example, 0)]
   \<and> MatcherGroup_Match
        (GetIPMatcher (netlist_spec no_parseIPv6)
          (snd (NewIPSet no_parseIPv6 (netlist_spec no_parseIPv6) (env_serving ''203.0.113.0/24'' ''203.0.113.0/24'')
             no_plugins (ip_args_example [''198.51.100.7''] [rf_example]) (rt_start os_empty)))
          [Pointer 0])
        (Addr4 0xC6336407)
   \<and> \<not> MatcherGroup_Match
        (GetIPMatcher (netlist_spec no_parseIPv6)
          (ip_run_ticks (netlist_spec no_parseIPv6) (env_serving ''203.0.113.0/24'' ''203.0.113.0/24'') [0]
            (snd (NewIPSet no_parseIPv6 (netlist_spec no_parseIPv6) (env_serving ''203.0.113.0/24'' ''203.0.113.0/24'')
               no_plugins (ip_args_example [''198.51.100.7''] [rf_example]) (rt_start os_empty))))
          [Pointer 0])
        (Addr4 0xC6336407)"
  unfolding build_static_and_remote snd_conv fst_conv tick_static_and_remote
  by (simp add: GetIPMatcher_def netlist_spec_def)

section \<open>A local copy that fails to load at construction\<close>

lemma domain_initial_load_failure_is_fatal:
  assumes "files s (Path rf) = Some c0" "Path rf \<noteq> []" "snd (domain_LoadFromTextReader P m c0) \<noteq> None"
  shows "snd (snd (LoadRemoteFile P E rf (s, m))) \<noteq> None"
  using assms
  by (auto simp: LoadRemoteFile_def Let_def os_IsNotExist_def LoadFile_def os_ReadFile_def
      split: prod.splits option.splits)

lemma build_stale_ip:
  "NewIPSet no_parseIPv6 (netlist_spec no_parseIPv6) (env_serving ''198.51.100.0/24'' ''198.51.100.0/24'') no_plugins
    (ip_args_example [] [rf_example]) (rt_start (os_with ''cache/list.txt'' ''not an address''))
   = (Inr [Pointer 0],
      \<lparr>rt_os = \<lparr>files = [''cache/list.txt'' \<mapsto> ''198.51.100.0/24''], downloads = 1\<rparr>,
       rt_heap = [\<lparr>List_e = [\<lparr>Prefix_Addr = Addr4 0xC6336400, Prefix_Bits = 24\<rparr>], List_sorted = True\<rparr>],
       rt_goroutines = [(rf_example, 0)]\<rparr>)"
  by (simp add: ex_defs parse_defs ip_set_defs Let_def)

text \<open>
  C3. The local copy exists and holds text that is no address. In the IP set the
  initial load fails, its error is dropped, and construction succeeds after the
  download. In the domain set, on the corresponding input, the same failure makes
  construction return the error.
\<close>

theorem C3_ip_initial_load_error_discarded:
  "LoadFromFile (netlist_spec no_parseIPv6) (os_with ''cache/list.txt'' ''not an address'') (Path rf_example)
       (netlist_NewList (netlist_spec no_parseIPv6))
     = (\<lparr>List_e = [], List_sorted = False\<rparr>, Some (ErrorNew ''unable to parse IP''))
   \<and> fst (NewIPSet no_parseIPv6 (netlist_spec no_parseIPv6) (env_serving ''198.51.100.0/24'' ''198.51.100.0/24'')
          no_plugins (ip_args_example [] [rf_example]) (rt_start (os_with ''cache/list.txt'' ''not an address'')))
     = Inr [Pointer 0]
   \<and> LoadFile (domain_spec parse_exact admits_exact) (os_with ''cache/list.txt'' ''bad rule'') (Path rf_example)
       (domain_NewDomainMixMatcher (domain_spec parse_exact admits_exact))
     = ([], Some (ErrorNew ''invalid domain''))
   \<and> fst (NewDomainSet (domain_spec parse_exact admits_exact) (env_serving ''example.org'' ''example.org'')
          no_plugins (domain_args_example [] [rf_example]) (rt_start (os_with ''cache/list.txt'' ''bad rule'')))
     = Inl (Errorf ''failed to load remote file https://example.org/list.txt: invalid domain''
              (ErrorNew ''invalid domain''))"
proof (intro conjI)
  show "LoadFromFile (netlist_spec no_parseIPv6) (os_with ''cache/list.txt'' ''not an address'') (Path rf_example)
       (netlist_NewList (netlist_spec no_parseIPv6))
     = (\<lparr>List_e = [], List_sorted = False\<rparr>, Some (ErrorNew ''unable to parse IP''))"
    by (simp add: ex_defs parse_defs ip_set_defs)
  show "fst (NewIPSet no_parseIPv6 (netlist_spec no_parseIPv6) (env_serving ''198.51.100.0/24'' ''198.51.100.0/24'')
          no_plugins (ip_args_example [] [rf_example]) (rt_start (os_with ''cache/list.txt'' ''not an address'')))
     = Inr [Pointer 0]"
    by (simp add: build_stale_ip)
  show "LoadFile (domain_spec parse_exact admits_exact) (os_with ''cache/list.txt'' ''bad rule'') (Path rf_example)
       (domain_NewDomainMixMatcher (domain_spec parse_exact admits_exact))
     = ([], Some (ErrorNew ''invalid domain''))"
    by (simp add: ex_defs dom_defs)
  show "fst (NewDomainSet (domain_spec parse_exact admits_exact) (env_serving ''example.org'' ''example.org'')
          no_plugins (domain_args_example [] [rf_example]) (rt_start (os_with ''cache/list.txt'' ''bad rule'')))
     = Inl (Errorf ''failed to load remote file https://example.org/list.txt: invalid domain''
              (ErrorNew ''invalid domain''))"
    by (simp add: ex_defs dom_defs Let_def)
qed

end
